theory Spec2Isabelle
  imports Complex_Main "HOL-Library.AList"
begin

section \<open>Python strings\<close>

text \<open>
  Strings are byte lists. The helpers below model the methods of Python's \<open>str\<close>
  that the orchestrator uses: \<open>strip\<close>, \<open>startswith\<close>, the substring test \<open>in\<close> and
  \<open>split\<close> with a separator. The white space of \<open>strip\<close> is the ASCII white space:
  the white space characters outside ASCII, which \<open>strip\<close> removes too, are not
  modelled.
\<close>

definition py_isspace :: "char \<Rightarrow> bool" where
  \<comment> \<open>the ASCII characters that \<open>str.strip()\<close> removes: tab, LF, VT, FF, CR,
      the separators 0x1c to 0x1f, and the space\<close>
  "py_isspace c = (let n = of_char c :: nat in (9 \<le> n \<and> n \<le> 13) \<or> (28 \<le> n \<and> n \<le> 32))"

definition strip :: "string \<Rightarrow> string" where
  "strip s = rev (dropWhile py_isspace (rev (dropWhile py_isspace s)))"

fun startswith :: "string \<Rightarrow> string \<Rightarrow> bool" where
  "startswith s [] = True"
| "startswith [] (p # ps) = False"
| "startswith (c # cs) (p # ps) = (c = p \<and> startswith cs ps)"

fun contains :: "string \<Rightarrow> string \<Rightarrow> bool" where
  \<comment> \<open>\<open>contains sub s\<close> is Python's \<open>sub in s\<close>\<close>
  "contains sub [] = (sub = [])"
| "contains sub (c # cs) = (startswith (c # cs) sub \<or> contains sub cs)"

fun py_split_aux :: "string \<Rightarrow> string \<Rightarrow> string \<Rightarrow> string list" where
  \<comment> \<open>scans left to right; \<open>cur\<close> is the piece read since the last separator\<close>
  "py_split_aux sep cur [] = [cur]"
| "py_split_aux sep cur (c # cs) =
     (if startswith (c # cs) sep then cur # py_split_aux sep [] (drop (length sep - 1) cs)
      else py_split_aux sep (cur @ [c]) cs)"

section \<open>Python exceptions\<close>

text \<open>
  The exceptions that the modelled code raises or catches. \<open>JSONDecodeError\<close> is a
  subclass of \<open>ValueError\<close>; the three scraper exceptions derive from
  \<open>GooglePlayScraperException\<close> (\<open>exceptions.py\<close>); \<open>OtherError\<close> stands for any other
  exception, named by its class.
\<close>

datatype py_error =
    KeyError | IndexError | TypeError | ValueError | JSONDecodeError | OSError
  | InvalidURLError | NotFoundError | ExtraHTTPError
  | OtherError string

definition is_ValueError :: "py_error \<Rightarrow> bool" where
  "is_ValueError e = (e = ValueError \<or> e = JSONDecodeError)"

definition is_GooglePlayScraperException :: "py_error \<Rightarrow> bool" where
  "is_GooglePlayScraperException e = (e = InvalidURLError \<or> e = NotFoundError \<or> e = ExtraHTTPError)"

definition py_split :: "string \<Rightarrow> string \<Rightarrow> py_error + string list" where
  \<comment> \<open>\<open>s.split(sep)\<close>; an empty separator raises \<open>ValueError\<close>\<close>
  "py_split s sep = (if sep = [] then Inl ValueError else Inr (py_split_aux sep [] s))"

definition list_get :: "'a list \<Rightarrow> int \<Rightarrow> py_error + 'a" where
  \<comment> \<open>\<open>xs[i]\<close>: the indices from \<open>-len(xs)\<close> to \<open>-1\<close> count from the end\<close>
  "list_get xs i =
     (if 0 \<le> i \<and> i < int (length xs) then Inr (xs ! nat i)
      else if i < 0 \<and> - i \<le> int (length xs) then Inr (xs ! nat (int (length xs) + i))
      else Inl IndexError)"

section \<open>Reading the identifier list\<close>

text \<open>
  A file opened in text mode ends a line at LF, at CR and at CR LF, and gives each of
  them as LF. Iterating over the file yields its lines, each with its terminating
  newline (the last line may lack one).
\<close>

fun universal_newlines :: "string \<Rightarrow> string" where
  "universal_newlines [] = []"
| "universal_newlines [c] = [if c = CHR 0x0D then CHR 0x0A else c]"
| "universal_newlines (c # d # cs) =
     (if c = CHR 0x0D then
        (if d = CHR 0x0A then CHR 0x0A # universal_newlines cs
         else CHR 0x0A # universal_newlines (d # cs))
      else c # universal_newlines (d # cs))"

fun file_lines_aux :: "string \<Rightarrow> string \<Rightarrow> string list" where
  "file_lines_aux cur [] = (if cur = [] then [] else [cur])"
| "file_lines_aux cur (c # cs) =
     (if c = CHR 0x0A then (cur @ [c]) # file_lines_aux [] cs
      else file_lines_aux (cur @ [c]) cs)"

definition file_lines :: "string \<Rightarrow> string list" where
  "file_lines content = file_lines_aux [] (universal_newlines content)"

text \<open>
  \<open>read_apps\<close> of \<open>metadata_crawl.py\<close>: the loop keeps the set \<open>unique\<close> and the list
  \<open>apps\<close>; a stripped line is skipped when it starts with \<open>#\<close> or is already in
  \<open>unique\<close>.
\<close>

fun read_apps_loop :: "string list \<Rightarrow> string set \<times> string list \<Rightarrow> string set \<times> string list" where
  "read_apps_loop [] st = st"
| "read_apps_loop (line # rest) (unique, apps) =
     (let app = strip line in
      if startswith app ''#'' \<or> app \<in> unique then read_apps_loop rest (unique, apps)
      else read_apps_loop rest (insert app unique, apps @ [app]))"

definition read_apps :: "string \<Rightarrow> string list" where
  "read_apps content = snd (read_apps_loop (file_lines content) ({}, []))"

text \<open>
  \<open>read_input_apps\<close> of \<open>crawler.py\<close>, for an input file: blank lines and comments are
  filtered out of the stripped lines. The duplicates are dropped later, when \<open>crawl\<close>
  fills the queue.
\<close>

definition read_input_apps :: "string \<Rightarrow> string list" where
  "read_input_apps content =
     filter (\<lambda>line. line \<noteq> [] \<and> hd line \<noteq> CHR ''#'') (map strip (file_lines content))"

fun queue_unique :: "string list \<Rightarrow> string set \<Rightarrow> string list" where
  \<comment> \<open>the loop of \<open>crawl\<close> that puts each app on the queue once\<close>
  "queue_unique [] unique = []"
| "queue_unique (app # apps) unique =
     (if app \<notin> unique then app # queue_unique apps (insert app unique)
      else queue_unique apps unique)"

section \<open>The download orchestrator (\<open>crawler.py\<close>)\<close>

text \<open>
  \<open>download\<close> either returns or raises \<open>DownloadException\<close>, which wraps every other
  exception; the model keeps the message \<open>str(e)\<close>.
\<close>

datatype download_result = Downloaded | DownloadException string

definition ERRORS :: "(string \<times> int) list" where
  \<comment> \<open>the dictionary \<open>ERRORS\<close>, in its insertion order\<close>
  "ERRORS =
     [(''Item not found'', 1),
      (''Your device is not compatible with this item'', 2),
      (''The Play Store application on your device is outdated'', 4),
      (''Google Play purchases are not supported in your country'', 5),
      (''This item is not available on your service provider'', 8),
      (''Rate limit triggered'', 14)]"

fun error_code_of :: "(string \<times> int) list \<Rightarrow> string \<Rightarrow> int" where
  \<comment> \<open>\<open>error_code = 15\<close>, then the first message of the table found in \<open>str(e)\<close> wins\<close>
  "error_code_of [] e = 15"
| "error_code_of ((msg, code) # rest) e = (if contains msg e then code else error_code_of rest e)"

type_synonym crawl_item = "string \<times> bool \<times> (int \<times> string) option"

text \<open>
  The state that \<open>execute\<close> and \<open>crawl\<close> change: the three output files, each as the
  list of the strings written to it, and the download queue. Writing to a file is
  taken to succeed. The removal of the app folder, the log messages and the 30 second
  sleep (unreachable: no code is 100) are left out.
\<close>

record crawl_state =
  failure_file :: "string list"
  transient_file :: "string list"
  finished_file :: "string list"
  DOWNLOAD_QUEUE :: "crawl_item list"

definition error_line :: "string \<Rightarrow> string \<Rightarrow> string" where
  \<comment> \<open>\<open>"{0}: {1}\n".format(app, msg)\<close>\<close>
  "error_line app msg = app @ '': '' @ msg @ ''\<newline>''"

definition message_part :: "string \<Rightarrow> py_error + string" where
  \<comment> \<open>\<open>msg.split(": ")[1]\<close>\<close>
  "message_part msg = (case py_split msg '': '' of Inl e \<Rightarrow> Inl e | Inr parts \<Rightarrow> list_get parts 1)"

text \<open>
  \<open>execute\<close> returns \<open>True\<close>, \<open>False\<close> or, after putting the app back on the queue,
  nothing (\<open>None\<close>); an uncaught exception is the left summand. The state is returned in
  both cases, since the transient file is written before the retry logic runs.
\<close>

definition execute ::
  "download_result \<Rightarrow> string \<Rightarrow> bool \<Rightarrow> (int \<times> string) option \<Rightarrow> crawl_state
     \<Rightarrow> (py_error + bool option) \<times> crawl_state" where
  "execute dl app is_retry previous s =
     (case dl of
        Downloaded \<Rightarrow> (Inr (Some True), s)
      | DownloadException e \<Rightarrow>
          if contains ''configuration file'' e \<or> contains ''credentials'' e
          then (Inr (Some False), s)
          else
            let error_code = error_code_of ERRORS e;
                s1 = (if error_code \<ge> 10
                      then s\<lparr>transient_file := transient_file s @ [error_line app e]\<rparr>
                      else s)
            in if is_retry then
                 (case previous of
                    None \<Rightarrow> (Inl TypeError, s1)
                  | Some (previous_code, previous_message) \<Rightarrow>
                      if error_code < 10 then
                        (case message_part e of
                           Inl err \<Rightarrow> (Inl err, s1)
                         | Inr m \<Rightarrow>
                             (Inr (Some True),
                              s1\<lparr>failure_file := failure_file s1 @ [error_line app m]\<rparr>))
                      else if previous_code < 10 then
                        (case message_part previous_message of
                           Inl err \<Rightarrow> (Inl err, s1)
                         | Inr m \<Rightarrow>
                             (Inr (Some True),
                              s1\<lparr>failure_file := failure_file s1 @ [error_line app m]\<rparr>))
                      else (Inr (Some False), s1))
               else
                 (Inr None,
                  s1\<lparr>DOWNLOAD_QUEUE := DOWNLOAD_QUEUE s1 @ [(app, True, Some (error_code, e))]\<rparr>))"

text \<open>
  One round of the loop of \<open>crawl\<close>: take the head of the queue, call \<open>execute\<close> with
  the outcome of this round's download (\<open>download count app\<close>), and write the app to
  \<open>finished.txt\<close> when \<open>execute\<close> returned a true value. \<open>OSError\<close> is caught; any other
  exception leaves the loop and is returned. The site-location probe that precedes
  \<open>execute\<close> every 50 rounds is left out: it logs the location, and when it raises
  (it catches only \<open>KeyError\<close>, \<open>OSError\<close> and \<open>JSONDecodeError\<close>) the crawl ends before
  \<open>execute\<close> runs, with neither file written for the item.
\<close>

definition crawl_step ::
  "(nat \<Rightarrow> string \<Rightarrow> download_result) \<Rightarrow> nat \<Rightarrow> crawl_state \<Rightarrow> py_error option \<times> crawl_state" where
  "crawl_step download count s =
     (case DOWNLOAD_QUEUE s of
        [] \<Rightarrow> (None, s)
      | (app, retry, previous) # rest \<Rightarrow>
          (case execute (download count app) app retry previous (s\<lparr>DOWNLOAD_QUEUE := rest\<rparr>) of
             (Inl e, s1) \<Rightarrow> (if e = OSError then None else Some e, s1)
           | (Inr executed, s1) \<Rightarrow>
               if executed = Some True
               then (None, s1\<lparr>finished_file := finished_file s1 @ [app @ ''\<newline>'']\<rparr>)
               else (None, s1)))"

text \<open>
  Fixtures: an empty crawl state, and download outcomes that depend on the round at
  most.
\<close>

definition empty_files :: "crawl_item list \<Rightarrow> crawl_state" where
  "empty_files q = \<lparr>failure_file = [], transient_file = [], finished_file = [], DOWNLOAD_QUEUE = q\<rparr>"

definition download_not_found :: "nat \<Rightarrow> string \<Rightarrow> download_result" where
  "download_not_found count app = DownloadException ''Error when downloading: Item not found''"

definition download_timeout :: "nat \<Rightarrow> string \<Rightarrow> download_result" where
  "download_timeout count app = DownloadException ''Error when downloading: timed out''"

definition download_timeout_then_not_found :: "nat \<Rightarrow> string \<Rightarrow> download_result" where
  "download_timeout_then_not_found count app =
     (if count = 0 then download_timeout count app else download_not_found count app)"

definition download_not_found_then_timeout :: "nat \<Rightarrow> string \<Rightarrow> download_result" where
  "download_not_found_then_timeout count app =
     (if count = 0 then download_not_found count app else download_timeout count app)"

section \<open>Python values\<close>

text \<open>
  The values that \<open>json.loads\<close> produces, and the strings cut out of a page. A float is
  kept as the number it denotes; only its test against zero is used. A dictionary is
  an association list in insertion order, with string keys. The length of a string
  counts its bytes.
\<close>

datatype pyval =
    PNone | PBool bool | PInt int | PFloat real | PStr string
  | PList "pyval list" | PDict "(string \<times> pyval) list"

fun truthy :: "pyval \<Rightarrow> bool" where
  "truthy PNone = False"
| "truthy (PBool b) = b"
| "truthy (PInt n) = (n \<noteq> 0)"
| "truthy (PFloat x) = (x \<noteq> 0)"
| "truthy (PStr s) = (s \<noteq> [])"
| "truthy (PList xs) = (xs \<noteq> [])"
| "truthy (PDict kvs) = (kvs \<noteq> [])"

fun py_len :: "pyval \<Rightarrow> py_error + nat" where
  "py_len (PStr s) = Inr (length s)"
| "py_len (PList xs) = Inr (length xs)"
| "py_len (PDict kvs) = Inr (length kvs)"
| "py_len v = Inl TypeError"

fun py_getitem :: "pyval \<Rightarrow> int \<Rightarrow> py_error + pyval" where
  \<comment> \<open>\<open>v[i]\<close> for an integer \<open>i\<close>; the keys of a decoded dictionary are strings, so
      an integer key is never found\<close>
  "py_getitem (PList xs) i = list_get xs i"
| "py_getitem (PStr s) i = (case list_get s i of Inl e \<Rightarrow> Inl e | Inr c \<Rightarrow> Inr (PStr [c]))"
| "py_getitem (PDict kvs) i = Inl KeyError"
| "py_getitem v i = Inl TypeError"

fun py_iter :: "pyval \<Rightarrow> py_error + pyval list" where
  \<comment> \<open>the items that a \<open>for\<close> loop over the value visits\<close>
  "py_iter (PList xs) = Inr xs"
| "py_iter (PStr s) = Inr (map (\<lambda>c. PStr [c]) s)"
| "py_iter (PDict kvs) = Inr (map (\<lambda>kv. PStr (fst kv)) kvs)"
| "py_iter v = Inl TypeError"

fun str_of_nat :: "nat \<Rightarrow> string" where
  "str_of_nat n =
     (if n < 10 then [''0123456789'' ! n]
      else str_of_nat (n div 10) @ [''0123456789'' ! (n mod 10)])"

definition str_of_int :: "int \<Rightarrow> string" where
  "str_of_int i = (if i < 0 then CHR ''-'' # str_of_nat (nat (- i)) else str_of_nat (nat i))"

section \<open>The extraction engine (\<open>element.py\<close>)\<close>

fun nested_lookup :: "pyval \<Rightarrow> int list \<Rightarrow> py_error + pyval" where
  "nested_lookup source [] = (if \<not> truthy source then Inr source else Inl IndexError)"
| "nested_lookup source [i] = (if \<not> truthy source then Inr source else py_getitem source i)"
| "nested_lookup source (i # j # rest) =
     (if \<not> truthy source then Inr source
      else case py_len source of
             Inl e \<Rightarrow> Inl e
           | Inr n \<Rightarrow>
               if i \<ge> int n then Inr PNone
               else (case py_getitem source i of
                       Inl e \<Rightarrow> Inl e
                     | Inr v \<Rightarrow> nested_lookup v (j # rest)))"

text \<open>
  A post-processor is any callable: it returns a value or raises. The fallback is
  \<open>None\<close> unless the specification declares one.
\<close>

record ElementSpec =
  ds_num :: int
  extraction_map :: "int list"
  post_processor :: "(pyval \<Rightarrow> py_error + pyval) option"
  post_processor_except_fallback :: pyval

definition ds_key :: "int \<Rightarrow> string" where
  \<comment> \<open>\<open>"ds:{}".format(ds_num)\<close>\<close>
  "ds_key n = ''ds:'' @ str_of_int n"

definition dict_get :: "(string \<times> pyval) list \<Rightarrow> string \<Rightarrow> py_error + pyval" where
  \<comment> \<open>\<open>d[k]\<close>\<close>
  "dict_get d k = (case map_of d k of None \<Rightarrow> Inl KeyError | Some v \<Rightarrow> Inr v)"

definition extract_content :: "ElementSpec \<Rightarrow> (string \<times> pyval) list \<Rightarrow> py_error + pyval" where
  "extract_content spec source =
     (case (case (case dict_get source (ds_key (ds_num spec)) of
                    Inl e \<Rightarrow> Inl e
                  | Inr d \<Rightarrow> nested_lookup d (extraction_map spec)) of
              Inl e \<Rightarrow> if e = KeyError \<or> e = IndexError \<or> e = TypeError then Inr PNone else Inl e
            | Inr v \<Rightarrow> Inr v) of
        Inl e \<Rightarrow> Inl e
      | Inr result \<Rightarrow>
          (case post_processor spec of
             None \<Rightarrow> Inr result
           | Some f \<Rightarrow>
               if result \<noteq> PNone
               then (case f result of
                       Inl e \<Rightarrow> Inr (post_processor_except_fallback spec)
                     | Inr v \<Rightarrow> Inr v)
               else Inr result))"

text \<open>
  The loop of \<open>details\<close> over the registry: each field is extracted and stored under
  its name; an exception of \<open>extract_content\<close> would leave the loop.
\<close>

fun extract_fields ::
  "(string \<times> ElementSpec) list \<Rightarrow> (string \<times> pyval) list \<Rightarrow> (string \<times> pyval) list
     \<Rightarrow> py_error + (string \<times> pyval) list" where
  "extract_fields [] res result = Inr result"
| "extract_fields ((key, spec) # specs) res result =
     (case extract_content spec res of
        Inl e \<Rightarrow> Inl e
      | Inr content \<Rightarrow> extract_fields specs res (AList.update key content result))"

text \<open>
  Entries of the registries: the two specifications of \<open>CLUSTER\<close> that pagination uses,
  and of \<open>DETAIL\<close> the fields of the reduced record, \<open>size\<close>, and two fields with a
  post-processor (\<open>developerId\<close>, whose fallback is \<open>None\<close>, and \<open>histogram\<close>, whose
  fallback is a list of zeros).
\<close>

definition CLUSTER_apps :: ElementSpec where
  "CLUSTER_apps = \<lparr>ds_num = 3, extraction_map = [0, 1, 0, 0, 0], post_processor = None,
     post_processor_except_fallback = PNone\<rparr>"

definition CLUSTER_token :: ElementSpec where
  "CLUSTER_token = \<lparr>ds_num = 3, extraction_map = [0, 1, 0, 0, 7, 1], post_processor = None,
     post_processor_except_fallback = PNone\<rparr>"

definition DETAIL_size :: ElementSpec where
  "DETAIL_size = \<lparr>ds_num = 8, extraction_map = [0], post_processor = None,
     post_processor_except_fallback = PNone\<rparr>"

definition DETAIL_version :: ElementSpec where
  "DETAIL_version = \<lparr>ds_num = 8, extraction_map = [1], post_processor = None,
     post_processor_except_fallback = PNone\<rparr>"

definition DETAIL_released :: ElementSpec where
  "DETAIL_released = \<lparr>ds_num = 5, extraction_map = [0, 12, 36], post_processor = None,
     post_processor_except_fallback = PNone\<rparr>"

definition DETAIL_updated :: ElementSpec where
  "DETAIL_updated = \<lparr>ds_num = 5, extraction_map = [0, 12, 8, 0], post_processor = None,
     post_processor_except_fallback = PNone\<rparr>"

definition developerId_post :: "pyval \<Rightarrow> py_error + pyval" where
  \<comment> \<open>\<open>lambda s: s.split("id=")[1]\<close>\<close>
  "developerId_post v =
     (case v of
        PStr s \<Rightarrow>
          (case py_split s ''id='' of
             Inl e \<Rightarrow> Inl e
           | Inr parts \<Rightarrow> (case list_get parts 1 of Inl e \<Rightarrow> Inl e | Inr p \<Rightarrow> Inr (PStr p)))
      | _ \<Rightarrow> Inl (OtherError ''AttributeError''))"

definition DETAIL_developerId :: ElementSpec where
  "DETAIL_developerId = \<lparr>ds_num = 5, extraction_map = [0, 12, 5, 5, 4, 2],
     post_processor = Some developerId_post, post_processor_except_fallback = PNone\<rparr>"

definition item_1_of :: "pyval \<Rightarrow> int \<Rightarrow> py_error + pyval" where
  \<comment> \<open>\<open>container[k][1]\<close>\<close>
  "item_1_of container k =
     (case py_getitem container k of Inl e \<Rightarrow> Inl e | Inr row \<Rightarrow> py_getitem row 1)"

definition histogram_post :: "pyval \<Rightarrow> py_error + pyval" where
  \<comment> \<open>\<open>lambda container: [container[1][1], ..., container[5][1]]\<close>\<close>
  "histogram_post container =
     (case item_1_of container 1 of Inl e \<Rightarrow> Inl e | Inr a \<Rightarrow>
     (case item_1_of container 2 of Inl e \<Rightarrow> Inl e | Inr b \<Rightarrow>
     (case item_1_of container 3 of Inl e \<Rightarrow> Inl e | Inr c \<Rightarrow>
     (case item_1_of container 4 of Inl e \<Rightarrow> Inl e | Inr d \<Rightarrow>
     (case item_1_of container 5 of Inl e \<Rightarrow> Inl e | Inr f \<Rightarrow>
        Inr (PList [a, b, c, d, f]))))))"

definition DETAIL_histogram :: ElementSpec where
  "DETAIL_histogram = \<lparr>ds_num = 6, extraction_map = [0, 6, 1],
     post_processor = Some histogram_post,
     post_processor_except_fallback = PList [PInt 0, PInt 0, PInt 0, PInt 0, PInt 0]\<rparr>"

definition free_post :: "pyval \<Rightarrow> py_error + pyval" where
  \<comment> \<open>\<open>lambda s: s == 0\<close>: zero as an integer, as a float, and \<open>False\<close> are equal to 0\<close>
  "free_post v = Inr (PBool (v = PInt 0 \<or> v = PFloat 0 \<or> v = PBool False))"

definition DETAIL_free :: ElementSpec where
  "DETAIL_free = \<lparr>ds_num = 3, extraction_map = [0, 2, 0, 0, 0, 1, 0, 0],
     post_processor = Some free_post, post_processor_except_fallback = PNone\<rparr>"

text \<open>
  The descent that a path prefix describes: every value on the way is true and the
  index is inside it. It is the part of a path that \<open>nested_lookup\<close> follows without
  stopping.
\<close>

fun walk :: "pyval \<Rightarrow> int list \<Rightarrow> pyval option" where
  "walk v [] = Some v"
| "walk v (i # rest) =
     (if truthy v \<and> (case py_len v of Inl e \<Rightarrow> False | Inr n \<Rightarrow> i < int n)
      then (case py_getitem v i of Inl e \<Rightarrow> None | Inr v' \<Rightarrow> walk v' rest)
      else None)"

text \<open>A parsed page whose histogram container is a string, and whose version is \<open>1.0\<close>.\<close>

definition histogram_source :: "(string \<times> pyval) list" where
  "histogram_source =
     [(''ds:6'', PList [PList [PInt 0, PInt 0, PInt 0, PInt 0, PInt 0, PInt 0,
                               PList [PInt 0, PStr ''x'']]]),
      (''ds:8'', PList [PStr ''1M'', PStr ''1.0''])]"

section \<open>The response parser (\<open>utils.py\<close>, \<open>constants/regex.py\<close>)\<close>

text \<open>
  The three patterns of the parser have the form \<open>OPEN[\s\S]*?CLOSE\<close> or
  \<open>OPEN.*?CLOSE\<close> with fixed texts \<open>OPEN\<close> and \<open>CLOSE\<close>, so \<open>findall\<close> is a scan from
  left to right: outside a match it looks for \<open>OPEN\<close>, inside it collects characters up
  to the first \<open>CLOSE\<close>. A match that is still open at the end of the text is no match.
\<close>

fun scan_lazy :: "string \<Rightarrow> string \<Rightarrow> bool \<Rightarrow> string \<Rightarrow> string \<Rightarrow> string list" where
  \<comment> \<open>the texts between \<open>opn\<close> and the next \<open>cls\<close>; \<open>cur\<close> is the text read inside the
      current match\<close>
  "scan_lazy opn cls inside cur [] = []"
| "scan_lazy opn cls False cur (c # cs) =
     (if startswith (c # cs) opn then scan_lazy opn cls True [] (drop (length opn - 1) cs)
      else scan_lazy opn cls False [] cs)"
| "scan_lazy opn cls True cur (c # cs) =
     (if startswith (c # cs) cls then cur # scan_lazy opn cls False [] (drop (length cls - 1) cs)
      else scan_lazy opn cls True (cur @ [c]) cs)"

definition SCRIPT_findall :: "string \<Rightarrow> string list" where
  \<comment> \<open>\<open>AF_initDataCallback[\s\S]*?<\/script\<close>: the whole matches\<close>
  "SCRIPT_findall html =
     map (\<lambda>inner. ''AF_initDataCallback'' @ inner @ ''</script'')
       (scan_lazy ''AF_initDataCallback'' ''</script'' False [] html)"

definition VALUE_findall :: "string \<Rightarrow> string list" where
  \<comment> \<open>\<open>data:([\s\S]*?), sideChannel: \{\}\}\);<\/\<close>: the groups\<close>
  "VALUE_findall s = scan_lazy ''data:'' '', sideChannel: {}});</'' False [] s"

fun KEY_scan :: "bool \<Rightarrow> string \<Rightarrow> string \<Rightarrow> string list" where
  \<comment> \<open>\<open>(ds:.*?)'\<close>: the dot does not match a newline, so a newline inside a match
      abandons it, and every start before that newline with it\<close>
  "KEY_scan inside cur [] = []"
| "KEY_scan False cur (c # cs) =
     (if startswith (c # cs) ''ds:'' then KEY_scan True ''ds:'' (drop 2 cs)
      else KEY_scan False [] cs)"
| "KEY_scan True cur (c # cs) =
     (if c = CHR 0x27 then cur # KEY_scan False [] cs
      else if c = CHR 0x0A then KEY_scan False [] cs
      else KEY_scan True (cur @ [c]) cs)"

definition KEY_findall :: "string \<Rightarrow> string list" where
  "KEY_findall s = KEY_scan False [] s"

text \<open>
  \<open>json.loads\<close> belongs to the Python library; the parser takes it as the parameter
  \<open>loads\<close>, which returns the decoded value or raises.
\<close>

type_synonym json_decoder = "string \<Rightarrow> py_error + pyval"

fun parse_response_loop ::
  "json_decoder \<Rightarrow> (string \<times> pyval) list \<Rightarrow> string list \<Rightarrow> py_error + (string \<times> pyval) list" where
  "parse_response_loop loads res [] = Inr res"
| "parse_response_loop loads res (match # matches) =
     (let key_match = KEY_findall match; value_match = VALUE_findall match in
      if key_match \<noteq> [] \<and> value_match \<noteq> [] then
        (case loads (hd value_match) of
           Inl e \<Rightarrow> Inl e
         | Inr v \<Rightarrow> parse_response_loop loads (AList.update (hd key_match) v res) matches)
      else parse_response_loop loads res matches)"

definition parse_response :: "json_decoder \<Rightarrow> string \<Rightarrow> py_error + (string \<times> pyval) list" where
  "parse_response loads html = parse_response_loop loads [] (SCRIPT_findall html)"

text \<open>
  The script blocks of a page in which both patterns match, each as its key and its
  payload text; \<open>dict_of_pairs\<close> is the dictionary that assigning the pairs in order
  builds.
\<close>

definition block_of :: "string \<Rightarrow> (string \<times> string) option" where
  "block_of m =
     (if KEY_findall m \<noteq> [] \<and> VALUE_findall m \<noteq> []
      then Some (hd (KEY_findall m), hd (VALUE_findall m)) else None)"

definition script_blocks :: "string \<Rightarrow> (string \<times> string) list" where
  "script_blocks html = List.map_filter block_of (SCRIPT_findall html)"

definition dict_of_pairs :: "(string \<times> pyval) list \<Rightarrow> (string \<times> pyval) list \<Rightarrow> (string \<times> pyval) list" where
  "dict_of_pairs d kvs = foldl (\<lambda>d kv. AList.update (fst kv) (snd kv) d) d kvs"

subsection \<open>A JSON decoder for the examples\<close>

text \<open>
  A decoder for the part of JSON that the example pages use: \<open>null\<close>, \<open>true\<close>, \<open>false\<close>,
  integers, strings with the one-letter escapes, arrays and objects (the last of
  several equal keys wins), with white space. Any other
  text is reported as undecodable, so the decoder stands for \<open>json.loads\<close> on texts
  of this part of JSON and on texts that are not JSON at all. The fuel bounds the
  depth of the recursion; the length of the text is enough.
\<close>

definition json_ws :: "char \<Rightarrow> bool" where
  "json_ws c = (c = CHR '' '' \<or> c = CHR 0x09 \<or> c = CHR 0x0A \<or> c = CHR 0x0D)"

definition is_digit :: "char \<Rightarrow> bool" where
  "is_digit c = (let n = of_char c :: nat in 48 \<le> n \<and> n \<le> 57)"

definition digit_val :: "char \<Rightarrow> nat" where
  "digit_val c = of_char c - 48"

definition nat_of_digits :: "string \<Rightarrow> nat" where
  "nat_of_digits ds = foldl (\<lambda>n c. 10 * n + digit_val c) 0 ds"

definition json_number :: "string \<Rightarrow> (pyval \<times> string) option" where
  \<comment> \<open>an integer: an optional minus sign, then \<open>0\<close> or digits that do not start with \<open>0\<close>;
      a fraction or an exponent is outside the decoder\<close>
  "json_number s =
     (let neg = (s \<noteq> [] \<and> hd s = CHR ''-'');
          t = (if neg then tl s else s);
          ds = takeWhile is_digit t;
          rest = dropWhile is_digit t
      in if ds = [] \<or> (length ds > 1 \<and> hd ds = CHR ''0'') then None
         else if rest \<noteq> [] \<and> (hd rest = CHR ''.'' \<or> hd rest = CHR ''e'' \<or> hd rest = CHR ''E'') then None
         else Some (PInt (if neg then - int (nat_of_digits ds) else int (nat_of_digits ds)), rest))"

definition json_escape :: "char \<Rightarrow> char option" where
  \<comment> \<open>the character after a backslash; \<open>\u\<close> escapes are outside the decoder\<close>
  "json_escape c =
     (if c = CHR 0x22 \<or> c = CHR 0x5C \<or> c = CHR ''/'' then Some c
      else if c = CHR ''b'' then Some (CHR 0x08)
      else if c = CHR ''f'' then Some (CHR 0x0C)
      else if c = CHR ''n'' then Some (CHR 0x0A)
      else if c = CHR ''r'' then Some (CHR 0x0D)
      else if c = CHR ''t'' then Some (CHR 0x09)
      else None)"

fun json_string :: "string \<Rightarrow> (string \<times> string) option" where
  \<comment> \<open>the text after an opening quote, up to the closing quote; a control character
      is not allowed\<close>
  "json_string [] = None"
| "json_string (c # cs) =
     (if c = CHR 0x22 then Some ([], cs)
      else if c = CHR 0x5C then
        (case cs of
           [] \<Rightarrow> None
         | e # rest \<Rightarrow>
             (case json_escape e of
                None \<Rightarrow> None
              | Some ch \<Rightarrow>
                  (case json_string rest of
                     None \<Rightarrow> None
                   | Some (str, rest') \<Rightarrow> Some (ch # str, rest'))))
      else if (of_char c :: nat) < 32 then None
      else (case json_string cs of
              None \<Rightarrow> None
            | Some (str, rest') \<Rightarrow> Some (c # str, rest')))"

fun json_value :: "nat \<Rightarrow> string \<Rightarrow> (pyval \<times> string) option"
  and json_elements :: "nat \<Rightarrow> string \<Rightarrow> (pyval list \<times> string) option"
  and json_members :: "nat \<Rightarrow> string \<Rightarrow> ((string \<times> pyval) list \<times> string) option" where
  "json_value 0 s = None"
| "json_value (Suc n) s =
     (case dropWhile json_ws s of
        [] \<Rightarrow> None
      | c # cs \<Rightarrow>
          if startswith (c # cs) ''null'' then Some (PNone, drop 3 cs)
          else if startswith (c # cs) ''true'' then Some (PBool True, drop 3 cs)
          else if startswith (c # cs) ''false'' then Some (PBool False, drop 4 cs)
          else if c = CHR 0x22 then
            (case json_string cs of None \<Rightarrow> None | Some (str, rest) \<Rightarrow> Some (PStr str, rest))
          else if c = CHR ''['' then
            (case dropWhile json_ws cs of
               [] \<Rightarrow> None
             | d # ds \<Rightarrow>
                 if d = CHR '']'' then Some (PList [], ds)
                 else (case json_elements n cs of
                         None \<Rightarrow> None
                       | Some (xs, rest) \<Rightarrow> Some (PList xs, rest)))
          else if c = CHR ''{'' then
            (case dropWhile json_ws cs of
               [] \<Rightarrow> None
             | d # ds \<Rightarrow>
                 if d = CHR ''}'' then Some (PDict [], ds)
                 else (case json_members n cs of
                         None \<Rightarrow> None
                       | Some (kvs, rest) \<Rightarrow> Some (PDict (dict_of_pairs [] kvs), rest)))
          else json_number (c # cs))"
| "json_elements 0 s = None"
| "json_elements (Suc n) s =
     (case json_value n s of
        None \<Rightarrow> None
      | Some (v, rest) \<Rightarrow>
          (case dropWhile json_ws rest of
             [] \<Rightarrow> None
           | c # cs \<Rightarrow>
               if c = CHR '']'' then Some ([v], cs)
               else if c = CHR '','' then
                 (case json_elements n cs of
                    None \<Rightarrow> None
                  | Some (vs, rest') \<Rightarrow> Some (v # vs, rest'))
               else None))"
| "json_members 0 s = None"
| "json_members (Suc n) s =
     (case dropWhile json_ws s of
        [] \<Rightarrow> None
      | q # qs \<Rightarrow>
          if q \<noteq> CHR 0x22 then None
          else (case json_string qs of
                  None \<Rightarrow> None
                | Some (k, rest) \<Rightarrow>
                    (case dropWhile json_ws rest of
                       [] \<Rightarrow> None
                     | c # cs \<Rightarrow>
                         if c \<noteq> CHR '':'' then None
                         else (case json_value n cs of
                                 None \<Rightarrow> None
                               | Some (v, rest') \<Rightarrow>
                                   (case dropWhile json_ws rest' of
                                      [] \<Rightarrow> None
                                    | d # ds \<Rightarrow>
                                        if d = CHR ''}'' then Some ([(k, v)], ds)
                                        else if d = CHR '','' then
                                          (case json_members n ds of
                                             None \<Rightarrow> None
                                           | Some (kvs, rest'') \<Rightarrow>
                                               Some ((k, v) # kvs, rest''))
                                        else None)))))"

definition json_loads :: json_decoder where
  "json_loads s =
     (case json_value (Suc (length s)) s of
        None \<Rightarrow> Inl JSONDecodeError
      | Some (v, rest) \<Rightarrow> if dropWhile json_ws rest = [] then Inr v else Inl JSONDecodeError)"

text \<open>
  Example pages: two script blocks with the datasets 5 and 8; the same page with an
  undecodable payload in the first block; a page without script blocks.
\<close>

definition page_two_blocks :: string where
  "page_two_blocks =
     ''<script>AF_initDataCallback({key: 'ds:5', hash: '1', data:[1,2], sideChannel: {}});</script>'' @
     ''<script>AF_initDataCallback({key: 'ds:8', hash: '2', data:[\"1M\"], sideChannel: {}});</script>''"

definition page_bad_payload :: string where
  "page_bad_payload =
     ''<script>AF_initDataCallback({key: 'ds:5', hash: '1', data:[1,, sideChannel: {}});</script>'' @
     ''<script>AF_initDataCallback({key: 'ds:8', hash: '2', data:[\"1M\"], sideChannel: {}});</script>''"

definition page_no_blocks :: string where
  "page_no_blocks = ''<html><body>Not available</body></html>''"

section \<open>Requests and URLs (\<open>utils.py\<close>)\<close>

text \<open>
  \<open>_request\<close> returns the body of the response or raises: \<open>NotFoundError\<close> for status
  404, \<open>ExtraHTTPError\<close> for another HTTP error, and whatever the transport raises
  otherwise. The rate limit only delays the call. The model takes the outcomes of the
  calls in the order in which they are made: \<open>responses n\<close> is the outcome of call
  number \<open>n\<close>. The functions that make several calls take the number of the next call
  and return it with their result.
\<close>

type_synonym responses = "nat \<Rightarrow> py_error + string"

datatype piece = Lit string | Field string

fun py_format :: "piece list \<Rightarrow> (string \<times> string) list \<Rightarrow> py_error + string" where
  \<comment> \<open>\<open>template.format(**params)\<close> for a template of texts and named fields\<close>
  "py_format [] params = Inr []"
| "py_format (Lit s # ps) params =
     (case py_format ps params of Inl e \<Rightarrow> Inl e | Inr r \<Rightarrow> Inr (s @ r))"
| "py_format (Field k # ps) params =
     (case map_of params k of
        None \<Rightarrow> Inl KeyError
      | Some v \<Rightarrow> (case py_format ps params of Inl e \<Rightarrow> Inl e | Inr r \<Rightarrow> Inr (v @ r)))"

definition url_template :: "string \<Rightarrow> piece list option" where
  "url_template url_type =
     (if url_type = ''details'' then
        Some [Lit ''https://play.google.com/store/apps/'', Field ''func'', Lit ''?id='',
              Field ''id'', Field ''hl'', Field ''gl'']
      else if url_type = ''search'' then
        Some [Lit ''https://play.google.com/store/'', Field ''func'', Lit ''?q='',
              Field ''id'', Field ''hl'', Field ''gl'', Lit ''&c=apps'']
      else if url_type = ''collection'' then
        Some [Lit ''https://play.google.com/store/apps/'', Field ''func'', Lit ''/'',
              Field ''id'', Field ''hl'', Field ''gl'']
      else if url_type = ''filtered'' then
        Some [Lit ''https://play.google.com/store/apps/'', Field ''collection'',
              Lit ''/category/'', Field ''category'', Lit ''?'', Field ''hl'', Field ''gl'']
      else if url_type = ''ui'' then
        Some [Lit ''https://play.google.com/_/PlayStoreUi/data/batchexecute?'',
              Field ''hl'', Field ''gl'']
      else None)"

definition build_url :: "string \<Rightarrow> (string \<times> string) list \<Rightarrow> py_error + string" where
  "build_url url_type params =
     (case url_template url_type of
        None \<Rightarrow> Inl InvalidURLError
      | Some template \<Rightarrow>
          (case py_format template params of
             Inl e \<Rightarrow> if e = KeyError then Inl InvalidURLError else Inl e
           | Inr url \<Rightarrow> Inr url))"

definition opt_arg :: "string \<Rightarrow> string option \<Rightarrow> string" where
  \<comment> \<open>\<open>prefix + x if x else ""\<close>\<close>
  "opt_arg prefix x = (case x of None \<Rightarrow> [] | Some v \<Rightarrow> if v = [] then [] else prefix @ v)"

section \<open>The download link (\<open>utils.py\<close>)\<close>

fun py_find_from :: "nat \<Rightarrow> string \<Rightarrow> string \<Rightarrow> int" where
  "py_find_from i [] sub = (if sub = [] then int i else - 1)"
| "py_find_from i (c # cs) sub =
     (if startswith (c # cs) sub then int i else py_find_from (Suc i) cs sub)"

definition py_find :: "string \<Rightarrow> string \<Rightarrow> int" where
  \<comment> \<open>\<open>s.find(sub)\<close>: the index of the first occurrence, or -1\<close>
  "py_find s sub = py_find_from 0 s sub"

fun py_replace :: "string \<Rightarrow> string \<Rightarrow> string \<Rightarrow> string" where
  \<comment> \<open>\<open>s.replace(old, new)\<close> for a non-empty \<open>old\<close>\<close>
  "py_replace [] old new = []"
| "py_replace (c # cs) old new =
     (if old \<noteq> [] \<and> startswith (c # cs) old
      then new @ py_replace (drop (length old - 1) cs) old new
      else c # py_replace cs old new)"

definition BUTTON_findall :: "string \<Rightarrow> string list" where
  \<comment> \<open>\<open><button[\s\S]*?<\/button>\<close>\<close>
  "BUTTON_findall html =
     map (\<lambda>inner. ''<button'' @ inner @ ''</button>'')
       (scan_lazy ''<button'' ''</button>'' False [] html)"

definition OFFER_findall :: "string \<Rightarrow> string list" where
  \<comment> \<open>\<open><span itemprop=\"offers\"[\s\S]*?<\/span>\<close>\<close>
  "OFFER_findall s =
     map (\<lambda>inner. ''<span itemprop=\"offers\"'' @ inner @ ''</span>'')
       (scan_lazy ''<span itemprop=\"offers\"'' ''</span>'' False [] s)"

definition DOWNLOAD_open :: string where
  "DOWNLOAD_open = ''<meta itemprop=\"url\" content=''"

fun DOWNLOAD_scan :: "string \<Rightarrow> string list" where
  \<comment> \<open>\<open><meta itemprop=\"url\" content=[\S]*>\<close>: after the opening text, the longest
      run without white space, cut back to its last \<open>>\<close>\<close>
  "DOWNLOAD_scan [] = []"
| "DOWNLOAD_scan (c # cs) =
     (if startswith (c # cs) DOWNLOAD_open then
        (let run = takeWhile (\<lambda>x. \<not> py_isspace x) (drop (length DOWNLOAD_open - 1) cs);
             keep = length run - length (takeWhile (\<lambda>x. x \<noteq> CHR ''>'') (rev run))
         in if CHR ''>'' \<in> set run
            then (DOWNLOAD_open @ take keep run)
                   # DOWNLOAD_scan (drop (length DOWNLOAD_open - 1 + keep) cs)
            else DOWNLOAD_scan cs)
      else DOWNLOAD_scan cs)"

definition download_of_button :: "string \<Rightarrow> py_error + pyval \<times> pyval" where
  \<comment> \<open>the body of the loop of \<open>_download_link\<close> for a button with an offer\<close>
  "download_of_button i =
     (case list_get (DOWNLOAD_scan i) 0 of
        Inl e \<Rightarrow> Inl e
      | Inr download \<Rightarrow>
          (case py_split (py_replace download ''>'' []) ''content='' of
             Inl e \<Rightarrow> Inl e
           | Inr parts \<Rightarrow>
               (case list_get parts 1 of
                  Inl e \<Rightarrow> Inl e
                | Inr d \<Rightarrow>
                    Inr (PStr (py_replace (py_replace d [CHR 0x22] []) ''amp;'' []),
                         PBool (py_find i '' disabled>'' = - 1)))))"

fun download_link_loop :: "string list \<Rightarrow> py_error + pyval \<times> pyval" where
  "download_link_loop [] = Inr (PNone, PNone)"
| "download_link_loop (i # rest) =
     (if OFFER_findall i \<noteq> [] then download_of_button i else download_link_loop rest)"

definition download_link :: "string \<Rightarrow> py_error + pyval \<times> pyval" where
  "download_link html = download_link_loop (BUTTON_findall html)"

section \<open>The details operation (\<open>api.py\<close>)\<close>

definition py_lstrip :: "string \<Rightarrow> string \<Rightarrow> string" where
  \<comment> \<open>\<open>s.lstrip(chars)\<close>\<close>
  "py_lstrip s chars = dropWhile (\<lambda>c. c \<in> set chars) s"

fun no_double_underscore :: "string \<Rightarrow> bool" where
  "no_double_underscore (a # b # rest) =
     (\<not> (a = CHR ''_'' \<and> b = CHR ''_'') \<and> no_double_underscore (b # rest))"
| "no_double_underscore s = True"

definition int_space :: "char \<Rightarrow> bool" where
  \<comment> \<open>the white space that \<open>int\<close> accepts around the digits: tab, LF, VT, FF, CR, space\<close>
  "int_space c = (let n = of_char c :: nat in (9 \<le> n \<and> n \<le> 13) \<or> n = 32)"

definition py_int :: "string \<Rightarrow> py_error + int" where
  \<comment> \<open>\<open>int(s)\<close> for ASCII text: white space around, an optional sign, then decimal
      digits, with single underscores allowed between digits\<close>
  "py_int s =
     (let t = rev (dropWhile int_space (rev (dropWhile int_space s)));
          neg = (t \<noteq> [] \<and> hd t = CHR ''-'');
          body = (if t \<noteq> [] \<and> (hd t = CHR ''-'' \<or> hd t = CHR ''+'') then tl t else t)
      in if body \<noteq> [] \<and> is_digit (hd body) \<and> is_digit (last body)
            \<and> (\<forall>c \<in> set body. is_digit c \<or> c = CHR ''_'') \<and> no_double_underscore body
         then Inr (if neg then - int (nat_of_digits (filter is_digit body))
                   else int (nat_of_digits (filter is_digit body)))
         else Inl ValueError)"

fun keys_of :: "('a \<Rightarrow> py_error + int) \<Rightarrow> 'a list \<Rightarrow> py_error + (int \<times> 'a) list" where
  \<comment> \<open>the key function applied to the items in order; the first exception ends it\<close>
  "keys_of f [] = Inr []"
| "keys_of f (x # xs) =
     (case f x of
        Inl e \<Rightarrow> Inl e
      | Inr k \<Rightarrow> (case keys_of f xs of Inl e \<Rightarrow> Inl e | Inr ks \<Rightarrow> Inr ((k, x) # ks)))"

definition py_max :: "('a \<Rightarrow> py_error + int) \<Rightarrow> 'a list \<Rightarrow> py_error + 'a" where
  \<comment> \<open>\<open>max(xs, key=f)\<close>: \<open>ValueError\<close> on an empty sequence; the first of the largest\<close>
  "py_max f xs =
     (case xs of
        [] \<Rightarrow> Inl ValueError
      | _ \<Rightarrow>
          (case keys_of f xs of
             Inl e \<Rightarrow> Inl e
           | Inr [] \<Rightarrow> Inl ValueError
           | Inr (p # ps) \<Rightarrow>
               Inr (snd (foldl (\<lambda>best kx. if fst kx > fst best then kx else best) p ps))))"

definition site_item :: "(string \<times> pyval) list \<Rightarrow> string \<Rightarrow> int \<Rightarrow> py_error + pyval" where
  \<comment> \<open>\<open>res[location_key][i]\<close>\<close>
  "site_item res location_key i =
     (case dict_get res location_key of Inl e \<Rightarrow> Inl e | Inr v \<Rightarrow> py_getitem v i)"

text \<open>
  \<open>details\<close> takes the registry \<open>DETAIL\<close> as a parameter: the declared paths are
  configuration. Its single request is call number \<open>n\<close>.
\<close>

definition details ::
  "json_decoder \<Rightarrow> responses \<Rightarrow> nat \<Rightarrow> (string \<times> ElementSpec) list
     \<Rightarrow> string \<Rightarrow> string option \<Rightarrow> string option \<Rightarrow> py_error + (string \<times> pyval) list" where
  "details loads responses n DETAIL app_id lang country =
     (case build_url ''details''
             [(''func'', ''details''), (''id'', app_id),
              (''hl'', opt_arg ''&hl='' lang), (''gl'', opt_arg ''&gl='' country)] of
        Inl e \<Rightarrow> Inl e
      | Inr url \<Rightarrow>
     (case responses n of
        Inl e \<Rightarrow> Inl e
      | Inr html \<Rightarrow>
     (case parse_response loads html of
        Inl e \<Rightarrow> Inl e
      | Inr res \<Rightarrow>
     (case py_max (\<lambda>x. py_int (py_lstrip x ''ds:'')) (map fst res) of
        Inl e \<Rightarrow> Inl e
      | Inr location_key \<Rightarrow>
     (case site_item res location_key 4 of
        Inl e \<Rightarrow> Inl e
      | Inr site_location \<Rightarrow>
     (case site_item res location_key 5 of
        Inl e \<Rightarrow> Inl e
      | Inr site_language \<Rightarrow>
     (case extract_fields DETAIL res
             [(''appId'', PStr app_id), (''url'', PStr url),
              (''siteLocation'', site_location), (''siteLanguage'', site_language)] of
        Inl e \<Rightarrow> Inl e
      | Inr result \<Rightarrow>
     (case download_link html of
        Inl e \<Rightarrow> Inl e
      | Inr (link, enabled) \<Rightarrow>
          Inr (AList.update ''downloadLinkEnabled'' enabled
                 (AList.update ''downloadLink'' link result))))))))))"

text \<open>Fixtures: a server that answers every call with the page without script blocks.\<close>

definition responses_no_blocks :: responses where
  "responses_no_blocks n = Inr page_no_blocks"

section \<open>The pagination engine (\<open>utils.py\<close>)\<close>

fun lookup_ids :: "pyval list \<Rightarrow> py_error + pyval list" where
  \<comment> \<open>\<open>[nested_lookup(app, [12, 0]) for app in apps]\<close>\<close>
  "lookup_ids [] = Inr []"
| "lookup_ids (app # rest) =
     (case nested_lookup app [12, 0] of
        Inl e \<Rightarrow> Inl e
      | Inr v \<Rightarrow> (case lookup_ids rest of Inl e \<Rightarrow> Inl e | Inr vs \<Rightarrow> Inr (v # vs)))"

definition parse_app_list :: "pyval \<Rightarrow> int option \<Rightarrow> py_error + pyval list" where
  \<comment> \<open>\<open>_parse_app_list(apps, num)\<close> with \<open>detail=False\<close>: all the items when \<open>num\<close> is
      \<open>None\<close> or zero, the items with an index below \<open>num\<close> otherwise\<close>
  "parse_app_list apps num =
     (case py_iter apps of
        Inl e \<Rightarrow> Inl e
      | Inr items \<Rightarrow>
          (case num of
             None \<Rightarrow> lookup_ids items
           | Some k \<Rightarrow> if k = 0 then lookup_ids items else lookup_ids (take (nat k) items)))"

definition py_loads :: "json_decoder \<Rightarrow> pyval \<Rightarrow> py_error + pyval" where
  \<comment> \<open>\<open>json.loads(v)\<close> for a value: only a string is decoded\<close>
  "py_loads loads v = (case v of PStr s \<Rightarrow> loads s | _ \<Rightarrow> Inl TypeError)"

definition decode_ui :: "json_decoder \<Rightarrow> string \<Rightarrow> py_error + pyval" where
  \<comment> \<open>\<open>json.loads(nested_lookup(json.loads(resp[5:]), [0, 2]))\<close>\<close>
  "decode_ui loads resp =
     (case loads (drop 5 resp) of
        Inl e \<Rightarrow> Inl e
      | Inr outer \<Rightarrow>
          (case nested_lookup outer [0, 2] of
             Inl e \<Rightarrow> Inl e
           | Inr inner \<Rightarrow> py_loads loads inner))"

text \<open>
  The loop of \<open>_get_ui_request\<close>: while the response holds the marker
  \<open>PlayDataError\<close>, the request is made again, and after the fifth repetition the
  response itself is returned, as a string. \<open>left\<close> counts the repetitions that remain
  (\<open>5 - retry\<close>). The POST body built from the token does not change the outcome of a
  call in this model.
\<close>

fun ui_retry :: "json_decoder \<Rightarrow> responses \<Rightarrow> nat \<Rightarrow> nat \<Rightarrow> string \<Rightarrow> (py_error + pyval) \<times> nat" where
  "ui_retry loads responses left n resp =
     (if py_find resp ''PlayDataError'' \<noteq> - 1 then
        (case left of
           0 \<Rightarrow> (Inr (PStr resp), n)
         | Suc l \<Rightarrow>
             (case responses n of
                Inl e \<Rightarrow> (Inl e, Suc n)
              | Inr resp' \<Rightarrow> ui_retry loads responses l (Suc n) resp'))
      else (decode_ui loads resp, n))"

definition get_ui_request :: "json_decoder \<Rightarrow> responses \<Rightarrow> nat \<Rightarrow> (py_error + pyval) \<times> nat" where
  "get_ui_request loads responses n =
     (case responses n of
        Inl e \<Rightarrow> (Inl e, Suc n)
      | Inr resp \<Rightarrow> ui_retry loads responses 5 (Suc n) resp)"

text \<open>
  The body of the \<open>while\<close> loop of \<open>_cluster_request\<close>, inside its \<open>try\<close>. An exception
  is returned with the value that \<open>results\<close> has when it is raised: the token is read
  after the new page has been added.
\<close>

definition cluster_body ::
  "json_decoder \<Rightarrow> responses \<Rightarrow> string option \<Rightarrow> string option \<Rightarrow> nat \<Rightarrow> pyval list
     \<Rightarrow> (py_error \<times> pyval list \<times> nat) + (pyval list \<times> pyval \<times> nat)" where
  "cluster_body loads responses lang country n results =
     (case build_url ''ui'' [(''hl'', opt_arg ''&hl='' lang), (''gl'', opt_arg ''&gl='' country)] of
        Inl e \<Rightarrow> Inl (e, results, n)
      | Inr url \<Rightarrow>
     (case get_ui_request loads responses n of
        (Inl e, n') \<Rightarrow> Inl (e, results, n')
      | (Inr resp, n') \<Rightarrow>
     (case nested_lookup resp [0, 0, 0] of
        Inl e \<Rightarrow> Inl (e, results, n')
      | Inr apps \<Rightarrow>
     (case parse_app_list apps None of
        Inl e \<Rightarrow> Inl (e, results, n')
      | Inr ids \<Rightarrow>
     (case nested_lookup resp [0, 0, 7, 1] of
        Inl e \<Rightarrow> Inl (e, results @ ids, n')
      | Inr token \<Rightarrow> Inr (results @ ids, token, n'))))))"

text \<open>
  The loop may go on for as long as the server sends tokens, so it takes fuel: one
  unit for each test of the token. Any exception of the body ends the loop with the
  results collected so far (\<open>except: return results\<close>).
\<close>

fun cluster_loop ::
  "json_decoder \<Rightarrow> responses \<Rightarrow> string option \<Rightarrow> string option \<Rightarrow> nat \<Rightarrow> nat \<Rightarrow> pyval list
     \<Rightarrow> pyval \<Rightarrow> (pyval list \<times> nat) option" where
  "cluster_loop loads responses lang country 0 n results token = None"
| "cluster_loop loads responses lang country (Suc fuel) n results token =
     (if truthy token then
        (case cluster_body loads responses lang country n results of
           Inl (e, results', n') \<Rightarrow> Some (results', n')
         | Inr (results', token', n') \<Rightarrow>
             cluster_loop loads responses lang country fuel n' results' token')
      else Some (results, n))"

text \<open>
  \<open>_cluster_request\<close>: the seed page is call number 0; an exception before the loop
  leaves the function. The result comes with the number of calls made.
\<close>

definition cluster_request ::
  "json_decoder \<Rightarrow> responses \<Rightarrow> string option \<Rightarrow> string option \<Rightarrow> nat
     \<Rightarrow> ((py_error + pyval list) \<times> nat) option" where
  "cluster_request loads responses lang country fuel =
     (case responses 0 of
        Inl e \<Rightarrow> Some (Inl e, 1)
      | Inr html \<Rightarrow>
     (case parse_response loads html of
        Inl e \<Rightarrow> Some (Inl e, 1)
      | Inr res \<Rightarrow>
     (case extract_content CLUSTER_apps res of
        Inl e \<Rightarrow> Some (Inl e, 1)
      | Inr apps \<Rightarrow>
     (case extract_content CLUSTER_token res of
        Inl e \<Rightarrow> Some (Inl e, 1)
      | Inr token \<Rightarrow>
     (case parse_app_list apps None of
        Inl e \<Rightarrow> Some (Inl e, 1)
      | Inr results \<Rightarrow>
     (case cluster_loop loads responses lang country fuel 1 results token of
        None \<Rightarrow> None
      | Some (results', n) \<Rightarrow> Some (Inr results', n)))))))"

text \<open>
  The states that the loop passes through: from \<open>(n, results, token)\<close> one round that
  ends without an exception leads to the next state.
\<close>

inductive cluster_reaches ::
  "json_decoder \<Rightarrow> responses \<Rightarrow> string option \<Rightarrow> string option
     \<Rightarrow> nat \<times> pyval list \<times> pyval \<Rightarrow> nat \<times> pyval list \<times> pyval \<Rightarrow> bool"
  for loads responses lang country where
  here: "cluster_reaches loads responses lang country s s"
| round: "truthy token \<Longrightarrow>
          cluster_body loads responses lang country n results = Inr (results', token', n') \<Longrightarrow>
          cluster_reaches loads responses lang country (n', results', token') s \<Longrightarrow>
          cluster_reaches loads responses lang country (n, results, token) s"

text \<open>
  Fixtures. The seed page holds one app, \<open>com.a\<close>, and the token \<open>tok\<close>; the
  continuation pages hold the app \<open>com.b\<close>, without a token (\<open>next_page\<close>) or with
  the token \<open>t2\<close> (\<open>more_page\<close>); the error page holds the marker. \<open>json_quote\<close>
  writes a text as a JSON string.
\<close>

fun json_quote_chars :: "string \<Rightarrow> string" where
  "json_quote_chars [] = []"
| "json_quote_chars (c # cs) =
     (if c = CHR 0x22 \<or> c = CHR 0x5C then CHR 0x5C # c # json_quote_chars cs
      else c # json_quote_chars cs)"

definition json_quote :: "string \<Rightarrow> string" where
  "json_quote s = CHR 0x22 # json_quote_chars s @ [CHR 0x22]"

definition seed_page :: string where
  "seed_page =
     ''<script>AF_initDataCallback({key: 'ds:3', hash: '1', data:'' @
     ''[[0,[[[[[0,0,0,0,0,0,0,0,0,0,0,0,[\"com.a\"]]],0,0,0,0,0,0,[0,\"tok\"]]]]]]'' @
     '', sideChannel: {}});</script>''"

definition next_page :: string where
  "next_page =
     '')]}'' @ [CHR 0x27, CHR 0x0A] @ ''[[\"wrb.fr\",\"qnKhOb\",'' @
     json_quote ''[[[[[0,0,0,0,0,0,0,0,0,0,0,0,[\"com.b\"]]],0,0,0,0,0,0,[0,null]]]]'' @
     '']]''"

definition error_page :: string where
  "error_page = '')]}'' @ [CHR 0x27, CHR 0x0A] @ ''[[\"er\",null,null,null,null,500,null,\"PlayDataError\"]]''"

definition responses_always_marker :: responses where
  "responses_always_marker n = (if n = 0 then Inr seed_page else Inr error_page)"

definition responses_then_not_found :: responses where
  "responses_then_not_found n =
     (if n = 0 then Inr seed_page else if n = 1 then Inr next_page else Inl NotFoundError)"

definition more_page :: string where
  "more_page =
     '')]}'' @ [CHR 0x27, CHR 0x0A] @ ''[[\"wrb.fr\",\"qnKhOb\",'' @
     json_quote ''[[[[[0,0,0,0,0,0,0,0,0,0,0,0,[\"com.b\"]]],0,0,0,0,0,0,[0,\"t2\"]]]]'' @
     '']]''"

definition responses_page_then_not_found :: responses where
  "responses_page_then_not_found n =
     (if n = 0 then Inr seed_page else if n = 1 then Inr more_page else Inl NotFoundError)"

definition app_entry :: "string \<Rightarrow> pyval" where
  "app_entry name =
     PList [PInt 0, PInt 0, PInt 0, PInt 0, PInt 0, PInt 0, PInt 0, PInt 0, PInt 0, PInt 0,
            PInt 0, PInt 0, PList [PStr name]]"

definition cluster_of :: "string \<Rightarrow> pyval \<Rightarrow> pyval" where
  "cluster_of name token =
     PList [PList [app_entry name], PInt 0, PInt 0, PInt 0, PInt 0, PInt 0, PInt 0,
            PList [PInt 0, token]]"

definition seed_dataset :: "(string \<times> pyval) list" where
  "seed_dataset =
     [(''ds:3'', PList [PList [PInt 0, PList [PList [cluster_of ''com.a'' (PStr ''tok'')]]]])]"

definition bad_token_page :: string where
  \<comment> \<open>a continuation page with the app \<open>com.c\<close> whose token slot holds the number 5\<close>
  "bad_token_page =
     '')]}'' @ [CHR 0x27, CHR 0x0A] @ ''[[\"wrb.fr\",\"qnKhOb\",'' @
     json_quote ''[[[[[0,0,0,0,0,0,0,0,0,0,0,0,[\"com.c\"]]],0,0,0,0,0,0,5]]]'' @
     '']]''"

definition responses_bad_token :: responses where
  "responses_bad_token n =
     (if n = 0 then Inr seed_page else if n = 1 then Inr more_page else Inr bad_token_page)"

definition bad_token_decoded :: pyval where
  "bad_token_decoded =
     PList [PList [PList [PList [app_entry ''com.c''], PInt 0, PInt 0, PInt 0, PInt 0, PInt 0,
                          PInt 0, PInt 5]]]"

section \<open>The reduced metadata row (\<open>metadata_crawl.py\<close>)\<close>

text \<open>
  \<open>str.format\<close> writes a value as \<open>str\<close> does. The text of \<open>None\<close>, of a boolean, of an
  integer and of a string is modelled; the text of a float or of a container is left
  to the parameter \<open>other\<close>.
\<close>

definition py_str :: "(pyval \<Rightarrow> string) \<Rightarrow> pyval \<Rightarrow> string" where
  "py_str other v =
     (case v of
        PNone \<Rightarrow> ''None''
      | PBool b \<Rightarrow> (if b then ''True'' else ''False'')
      | PInt i \<Rightarrow> str_of_int i
      | PStr s \<Rightarrow> s
      | _ \<Rightarrow> other v)"

definition row_quoted :: "piece list" where
  \<comment> \<open>\<open>"{app},{version},{updated},\"{released}\",{dl},{dle}\n"\<close>\<close>
  "row_quoted =
     [Field ''app'', Lit '','', Field ''version'', Lit '','', Field ''updated'', Lit '','',
      Lit [CHR 0x22], Field ''released'', Lit [CHR 0x22], Lit '','',
      Field ''dl'', Lit '','', Field ''dle'', Lit [CHR 0x0A]]"

definition row_plain :: "piece list" where
  \<comment> \<open>\<open>"{app},{version},{updated},{released},{dl},{dle}\n"\<close>\<close>
  "row_plain =
     [Field ''app'', Lit '','', Field ''version'', Lit '','', Field ''updated'', Lit '','',
      Field ''released'', Lit '','', Field ''dl'', Lit '','', Field ''dle'', Lit [CHR 0x0A]]"

text \<open>
  The reduced branch of \<open>try_metadata\<close>, from the record that \<open>details\<close> returned to
  the row put on the metadata queue.
\<close>

definition reduced_row ::
  "(pyval \<Rightarrow> string) \<Rightarrow> string \<Rightarrow> (string \<times> pyval) list \<Rightarrow> py_error + string" where
  "reduced_row other app metadata =
     (case dict_get metadata ''version'' of Inl e \<Rightarrow> Inl e | Inr version \<Rightarrow>
     (case dict_get metadata ''updated'' of Inl e \<Rightarrow> Inl e | Inr updated \<Rightarrow>
     (case dict_get metadata ''released'' of Inl e \<Rightarrow> Inl e | Inr released \<Rightarrow>
     (case dict_get metadata ''downloadLink'' of Inl e \<Rightarrow> Inl e | Inr link \<Rightarrow>
     (case dict_get metadata ''downloadLinkEnabled'' of Inl e \<Rightarrow> Inl e | Inr enabled \<Rightarrow>
        py_format (if truthy released then row_quoted else row_plain)
          [(''app'', app),
           (''version'', py_str other version),
           (''updated'', py_str other updated),
           (''released'', py_str other released),
           (''dl'', py_str other (PBool (truthy link))),
           (''dle'', py_str other (PBool (truthy enabled)))])))))"

text \<open>
  Fixtures: a record with a release date and an enabled download link, one without
  either. They hold no float and no container, so \<open>other\<close> is never asked.
\<close>

definition no_other :: "pyval \<Rightarrow> string" where
  "no_other v = []"

definition metadata_released :: "(string \<times> pyval) list" where
  "metadata_released =
     [(''appId'', PStr ''com.a''), (''version'', PStr ''1.0''), (''updated'', PInt 1349740800),
      (''released'', PStr ''Oct 9, 2012''),
      (''downloadLink'', PStr ''https://play.google.com/store/apps/details?id=com.a''),
      (''downloadLinkEnabled'', PBool True)]"

definition metadata_unreleased :: "(string \<times> pyval) list" where
  "metadata_unreleased =
     [(''appId'', PStr ''com.a''), (''version'', PStr ''1.0''), (''updated'', PInt 1349740800),
      (''released'', PNone), (''downloadLink'', PNone), (''downloadLinkEnabled'', PNone)]"

section \<open>Properties of the identifier list\<close>

lemma read_apps_loop_distinct:
  "distinct apps \<Longrightarrow> set apps = unique \<Longrightarrow>
   distinct (snd (read_apps_loop ls (unique, apps))) \<and>
   set (snd (read_apps_loop ls (unique, apps))) = fst (read_apps_loop ls (unique, apps))"
  by (induction ls arbitrary: unique apps) (auto simp: Let_def)

lemma read_apps_distinct: "distinct (read_apps content)"
  using read_apps_loop_distinct [of "[]" "{}"] by (simp add: read_apps_def)

lemma read_input_apps_no_blank: "[] \<notin> set (read_input_apps content)"
  by (simp add: read_input_apps_def)

lemma carriage_return_example:
  "read_apps (''A'' @ [CHR 0x0D] @ ''B'' @ [CHR 0x0D, CHR 0x0A] @ ''C\<newline>'') = [''A'', ''B'', ''C'']"
  by (simp add: read_apps_def file_lines_def strip_def py_isspace_def Let_def)

lemma duplicate_identifiers_example:
  "read_apps ''A\<newline>B\<newline>A\<newline>C\<newline>'' = [''A'', ''B'', ''C'']"
  "queue_unique (read_input_apps ''A\<newline>B\<newline>A\<newline>C\<newline>'') {} = [''A'', ''B'', ''C'']"
  by (simp_all add: read_apps_def read_input_apps_def file_lines_def strip_def py_isspace_def
      Let_def)

text \<open>
  C9 on the code. For the identifier list \<open>A\<close>, blank line, \<open>B\<close>, \<open>read_apps\<close> keeps
  the blank line as the empty identifier, which the metadata crawler then queues (it
  skips only comments and duplicates); \<open>read_input_apps\<close> of the download crawler
  drops the blank line on the same input.
\<close>

theorem read_apps_keeps_blank_line:
  "read_apps ''A\<newline>\<newline>B\<newline>'' = [''A'', '''', ''B''] \<and>
   read_input_apps ''A\<newline>\<newline>B\<newline>'' = [''A'', ''B'']"
  by (simp add: read_apps_def read_input_apps_def file_lines_def strip_def py_isspace_def Let_def)

section \<open>Properties of the orchestrator\<close>

lemma error_code_examples:
  "error_code_of ERRORS ''Error when downloading: Item not found'' = 1"
  "error_code_of ERRORS ''Error when downloading: timed out'' = 15"
  "error_code_of ERRORS ''Invalid credentials'' = 15"
  by (simp_all add: ERRORS_def)

lemma message_part_examples:
  "message_part ''Error when downloading: Item not found'' = Inr ''Item not found''"
  "message_part ''Item not found'' = Inl IndexError"
  by (simp_all add: message_part_def py_split_def list_get_def)

lemma retry_table_end_to_end:
  "snd (crawl_step download_not_found_then_timeout 1
          (snd (crawl_step download_not_found_then_timeout 0 (empty_files [(''app'', False, None)]))))
     = \<lparr>failure_file = [''app: Item not found\<newline>''],
        transient_file = [''app: Error when downloading: timed out\<newline>''],
        finished_file = [''app\<newline>''], DOWNLOAD_QUEUE = []\<rparr>"
  "snd (crawl_step download_timeout_then_not_found 1
          (snd (crawl_step download_timeout_then_not_found 0 (empty_files [(''app'', False, None)]))))
     = \<lparr>failure_file = [''app: Item not found\<newline>''],
        transient_file = [''app: Error when downloading: timed out\<newline>''],
        finished_file = [''app\<newline>''], DOWNLOAD_QUEUE = []\<rparr>"
  "snd (crawl_step download_timeout 1
          (snd (crawl_step download_timeout 0 (empty_files [(''app'', False, None)]))))
     = \<lparr>failure_file = [],
        transient_file = [''app: Error when downloading: timed out\<newline>'',
                          ''app: Error when downloading: timed out\<newline>''],
        finished_file = [], DOWNLOAD_QUEUE = []\<rparr>"
  by (simp_all add: crawl_step_def execute_def empty_files_def ERRORS_def message_part_def
      py_split_def list_get_def error_line_def download_not_found_then_timeout_def
      download_timeout_then_not_found_def download_not_found_def download_timeout_def)

text \<open>
  C1, as stated, fails when the second error is a configuration error. The item
  \<open>app\<close> is on its retry, its first error was \<open>Item not found\<close> (code 1, permanent),
  and the second download fails with a credentials message (not permanent): the claim
  records the first error as the final failure, while \<open>execute\<close> returns \<open>False\<close> before
  it compares the two errors and writes nothing.
\<close>

theorem execute_retry_config_counterexample:
  "error_code_of ERRORS ''Invalid credentials'' = 15 \<and>
   execute (DownloadException ''Invalid credentials'') ''app'' True
       (Some (1, ''Error when downloading: Item not found'')) (empty_files [])
     = (Inr (Some False), empty_files [])"
  by (simp add: execute_def ERRORS_def)

text \<open>
  C1, amended. A configuration error (a message with \<open>configuration file\<close> or
  \<open>credentials\<close>) ends \<open>execute\<close> at once, on a first attempt and on a retry alike:
  it returns \<open>False\<close> and writes nothing. For an item on its retry whose second error
  \<open>e\<close> is not a configuration error: if the code of \<open>e\<close> is below 10 and the message
  of \<open>e\<close> has a second piece when split at \<open>": "\<close>, the line of the second error,
  made of the app and that piece, is appended to the failure file and \<open>execute\<close>
  returns \<open>True\<close>; otherwise, if the code of \<open>e\<close> is 10 or more, the first code is below
  10 and the first message has such a second piece, the line of the first error is
  appended and \<open>execute\<close> returns \<open>True\<close>; otherwise, if both codes are 10 or more,
  nothing is written to the failure file, the app is not queued again and \<open>execute\<close>
  returns \<open>False\<close>. A second error with a code of 10 or more is also written to the
  transient file. The second piece is the text between the first and the second
  \<open>": "\<close> of the message (up to its end when there is no second one).
\<close>

theorem execute_retry_classification:
  "(contains ''configuration file'' e \<or> contains ''credentials'' e \<longrightarrow>
      execute (DownloadException e) app is_retry previous s = (Inr (Some False), s))
   \<and> (\<not> contains ''configuration file'' e \<and> \<not> contains ''credentials'' e \<and>
      error_code_of ERRORS e < 10 \<and> message_part e = Inr m \<longrightarrow>
      execute (DownloadException e) app True (Some (previous_code, previous_message)) s
        = (Inr (Some True), s\<lparr>failure_file := failure_file s @ [error_line app m]\<rparr>))
   \<and> (\<not> contains ''configuration file'' e \<and> \<not> contains ''credentials'' e \<and>
      error_code_of ERRORS e \<ge> 10 \<and> previous_code < 10 \<and>
      message_part previous_message = Inr m' \<longrightarrow>
      execute (DownloadException e) app True (Some (previous_code, previous_message)) s
        = (Inr (Some True),
           s\<lparr>transient_file := transient_file s @ [error_line app e],
             failure_file := failure_file s @ [error_line app m']\<rparr>))
   \<and> (\<not> contains ''configuration file'' e \<and> \<not> contains ''credentials'' e \<and>
      error_code_of ERRORS e \<ge> 10 \<and> previous_code \<ge> 10 \<longrightarrow>
      execute (DownloadException e) app True (Some (previous_code, previous_message)) s
        = (Inr (Some False), s\<lparr>transient_file := transient_file s @ [error_line app e]\<rparr>))"
  by (simp add: execute_def Let_def)

text \<open>
  The rows of the retry table: a transient second error after \<open>Item not found\<close>, \<open>Item
  not found\<close> after a transient first error, and two transient errors; then a
  credentials error on the retry after \<open>Item not found\<close>.
\<close>

theorem execute_retry_classification_witness:
  "execute (DownloadException ''Error when downloading: timed out'') ''app'' True
       (Some (1, ''Error when downloading: Item not found'')) (empty_files [])
     = (Inr (Some True),
        \<lparr>failure_file = [''app: Item not found\<newline>''],
         transient_file = [''app: Error when downloading: timed out\<newline>''],
         finished_file = [], DOWNLOAD_QUEUE = []\<rparr>)
   \<and> execute (DownloadException ''Error when downloading: Item not found'') ''app'' True
       (Some (15, ''Error when downloading: timed out'')) (empty_files [])
     = (Inr (Some True),
        \<lparr>failure_file = [''app: Item not found\<newline>''], transient_file = [],
         finished_file = [], DOWNLOAD_QUEUE = []\<rparr>)
   \<and> execute (DownloadException ''Error when downloading: timed out'') ''app'' True
       (Some (15, ''Error when downloading: timed out'')) (empty_files [])
     = (Inr (Some False),
        \<lparr>failure_file = [],
         transient_file = [''app: Error when downloading: timed out\<newline>''],
         finished_file = [], DOWNLOAD_QUEUE = []\<rparr>)
   \<and> execute (DownloadException ''Invalid credentials'') ''app'' True
       (Some (1, ''Error when downloading: Item not found'')) (empty_files [(''b'', False, None)])
     = (Inr (Some False), empty_files [(''b'', False, None)])"
proof -
  have nc: "\<not> contains ''configuration file'' ''Error when downloading: timed out''"
           "\<not> contains ''credentials'' ''Error when downloading: timed out''"
           "\<not> contains ''configuration file'' ''Error when downloading: Item not found''"
           "\<not> contains ''credentials'' ''Error when downloading: Item not found''"
           "contains ''credentials'' ''Invalid credentials''"
    by simp_all
  note r1 = execute_retry_classification [where e = "''Error when downloading: timed out''"
      and app = "''app''" and previous_code = 1
      and previous_message = "''Error when downloading: Item not found''"
      and m' = "''Item not found''" and s = "empty_files []"]
  note r2 = execute_retry_classification [where e = "''Error when downloading: Item not found''"
      and app = "''app''" and previous_code = 15
      and previous_message = "''Error when downloading: timed out''"
      and m = "''Item not found''" and s = "empty_files []"]
  note r3 = execute_retry_classification [where e = "''Error when downloading: timed out''"
      and app = "''app''" and previous_code = 15
      and previous_message = "''Error when downloading: timed out''"
      and s = "empty_files []"]
  note r4 = execute_retry_classification [where e = "''Invalid credentials''"
      and app = "''app''" and is_retry = True
      and previous = "Some (1, ''Error when downloading: Item not found'')"
      and s = "empty_files [(''b'', False, None)]"]
  have a1: "execute (DownloadException ''Error when downloading: timed out'') ''app'' True
       (Some (1, ''Error when downloading: Item not found'')) (empty_files [])
     = (Inr (Some True),
        (empty_files [])\<lparr>transient_file := transient_file (empty_files [])
             @ [error_line ''app'' ''Error when downloading: timed out''],
           failure_file := failure_file (empty_files []) @ [error_line ''app'' ''Item not found'']\<rparr>)"
    using r1 nc error_code_examples message_part_examples by simp
  have a2: "execute (DownloadException ''Error when downloading: Item not found'') ''app'' True
       (Some (15, ''Error when downloading: timed out'')) (empty_files [])
     = (Inr (Some True),
        (empty_files [])\<lparr>failure_file := failure_file (empty_files [])
             @ [error_line ''app'' ''Item not found'']\<rparr>)"
    using r2 nc error_code_examples message_part_examples by simp
  have a3: "execute (DownloadException ''Error when downloading: timed out'') ''app'' True
       (Some (15, ''Error when downloading: timed out'')) (empty_files [])
     = (Inr (Some False),
        (empty_files [])\<lparr>transient_file := transient_file (empty_files [])
             @ [error_line ''app'' ''Error when downloading: timed out'']\<rparr>)"
    using r3 nc error_code_examples by simp
  have a4: "execute (DownloadException ''Invalid credentials'') ''app'' True
       (Some (1, ''Error when downloading: Item not found'')) (empty_files [(''b'', False, None)])
     = (Inr (Some False), empty_files [(''b'', False, None)])"
    using r4 nc by simp
  show ?thesis
    unfolding a1 a2 a3 a4 by (simp add: empty_files_def error_line_def)
qed

text \<open>
  C2, as stated, fails: an item whose retry ends in a permanent error is written to
  the failure file by \<open>execute\<close>, which returns \<open>True\<close>, and \<open>crawl\<close> then appends it to
  \<open>finished.txt\<close> as well. Here \<open>app\<close> is on its retry after a transient error and the
  download fails with \<open>Item not found\<close>.
\<close>

theorem failure_and_finished_counterexample:
  "crawl_step download_not_found 1
       (empty_files [(''app'', True, Some (15, ''Error when downloading: timed out''))])
     = (None,
        \<lparr>failure_file = [''app: Item not found\<newline>''], transient_file = [],
         finished_file = [''app\<newline>''], DOWNLOAD_QUEUE = []\<rparr>)"
  by (simp add: crawl_step_def execute_def download_not_found_def empty_files_def ERRORS_def
      message_part_def py_split_def list_get_def error_line_def)

text \<open>
  C2, amended. One round of the crawl loop on the item \<open>(app, retry, previous)\<close> ends in
  exactly one of three ways: the download succeeded and the app is appended to
  \<open>finished.txt\<close> only; the item was on its retry, one line for it is appended to the
  failure file and the app is appended to \<open>finished.txt\<close> too; or neither file is
  written (the item is queued again, abandoned, or the round raised). So an identifier
  written to the failure file is always written to \<open>finished.txt\<close> as well.
\<close>

theorem crawl_step_outcomes:
  assumes "DOWNLOAD_QUEUE s = (app, retry, previous) # rest"
    and "crawl_step download count s = (err, s')"
  shows "(download count app = Downloaded \<and>
            finished_file s' = finished_file s @ [app @ ''\<newline>''] \<and>
            failure_file s' = failure_file s)
       \<or> (download count app \<noteq> Downloaded \<and> retry \<and>
            finished_file s' = finished_file s @ [app @ ''\<newline>''] \<and>
            (\<exists>m. failure_file s' = failure_file s @ [error_line app m]))
       \<or> (download count app \<noteq> Downloaded \<and>
            finished_file s' = finished_file s \<and> failure_file s' = failure_file s)"
  using assms
  by (auto simp: crawl_step_def execute_def Let_def
      split: download_result.splits if_splits option.splits sum.splits prod.splits)

theorem crawl_step_outcomes_witness:
  "finished_file (snd (crawl_step download_not_found 1
       (empty_files [(''app'', True, Some (15, ''Error when downloading: timed out''))])))
     = [''app\<newline>'']
   \<and> (\<exists>m. failure_file (snd (crawl_step download_not_found 1
       (empty_files [(''app'', True, Some (15, ''Error when downloading: timed out''))])))
     = [error_line ''app'' m])"
proof -
  have q: "DOWNLOAD_QUEUE (empty_files [(''app'', True, Some (15, ''Error when downloading: timed out''))])
             = (''app'', True, Some (15, ''Error when downloading: timed out'')) # []"
    by (simp add: empty_files_def)
  have nd: "download_not_found 1 ''app'' \<noteq> Downloaded"
    by (simp add: download_not_found_def)
  have fin: "finished_file (snd (crawl_step download_not_found 1
       (empty_files [(''app'', True, Some (15, ''Error when downloading: timed out''))])))
     \<noteq> finished_file (empty_files [(''app'', True, Some (15, ''Error when downloading: timed out''))])"
    by (simp add: crawl_step_def execute_def download_not_found_def empty_files_def ERRORS_def
        message_part_def py_split_def list_get_def error_line_def)
  show ?thesis
    using crawl_step_outcomes [OF q surjective_pairing, of download_not_found 1] nd fin
    by (auto simp: empty_files_def)
qed

section \<open>Properties of the extraction engine\<close>

lemma nested_lookup_errors:
  "nested_lookup source idx = Inl e \<Longrightarrow> e = KeyError \<or> e = IndexError \<or> e = TypeError"
proof (induction source idx rule: nested_lookup.induct)
  case (1 source)
  then show ?case by (auto split: if_splits)
next
  case (2 source i)
  then show ?case
    by (cases source) (auto simp: list_get_def Let_def split: if_splits sum.splits)
next
  case (3 source i j rest)
  then show ?case
    by (cases source) (auto simp: list_get_def Let_def split: if_splits sum.splits)
qed

lemma extract_content_total: "\<exists>v. extract_content spec source = Inr v"
  by (auto simp: extract_content_def dict_get_def split: sum.splits option.splits dest: nested_lookup_errors)

lemma walk_nested_lookup:
  "walk d pre = Some v \<Longrightarrow> rest \<noteq> [] \<Longrightarrow> nested_lookup d (pre @ rest) = nested_lookup v rest"
proof (induction d pre rule: walk.induct)
  case (1 v)
  then show ?case by simp
next
  case (2 v i rest')
  then show ?case
    by (cases "rest' @ rest") (auto split: if_splits sum.splits)
qed

lemma nested_lookup_blocked:
  assumes "truthy v" and "py_getitem v i = Inl e"
  shows "nested_lookup v (i # rest) = Inr PNone \<or> (\<exists>e'. nested_lookup v (i # rest) = Inl e')"
  using assms by (cases rest) (auto split: sum.splits)

lemma nested_lookup_falsy: "\<not> truthy v \<Longrightarrow> nested_lookup v idx = Inr v"
  by (cases "(v, idx)" rule: nested_lookup.cases) auto

text \<open>
  C4, as stated, fails where the path meets a false value: \<open>nested_lookup\<close> returns a
  false source as it is, before it looks at the indices. For the field \<open>size\<close> (dataset
  8, path \<open>[0]\<close>) and a dataset 8 that is the empty list, index 0 is past the end of the
  sequence, and the result is the empty list, not \<open>None\<close>.
\<close>

theorem extract_content_counterexample:
  "py_getitem (PList []) 0 = Inl IndexError \<and>
   extract_content DETAIL_size [(''ds:8'', PList [])] = Inr (PList [])"
  by (simp add: extract_content_def DETAIL_size_def dict_get_def ds_key_def str_of_int_def list_get_def)

text \<open>
  C4, amended. \<open>extract_content\<close> never raises. It returns \<open>None\<close> when the dataset key
  is missing from the map, and when the path, after a descent through true values by
  indices inside them, reaches a true value that cannot be indexed by the next index
  (the index is past the end of a sequence, or the value is not a sequence). When the
  descent reaches a false value \<open>v\<close> (an empty sequence or string, zero, \<open>False\<close>,
  \<open>None\<close>) with indices left, \<open>v\<close> is the raw value: the result is \<open>v\<close> itself when no
  post-processor is declared or \<open>v\<close> is \<open>None\<close>; otherwise it is what the post-processor
  returns for \<open>v\<close>, or the declared fallback when the post-processor raises.
\<close>

theorem extract_content_absent:
  "(\<exists>r. extract_content spec source = Inr r)
   \<and> (dict_get source (ds_key (ds_num spec)) = Inl KeyError \<longrightarrow>
        extract_content spec source = Inr PNone)
   \<and> (dict_get source (ds_key (ds_num spec)) = Inr d \<and> extraction_map spec = pre @ i # rest \<and>
        walk d pre = Some v \<and> truthy v \<and> py_getitem v i = Inl e \<longrightarrow>
        extract_content spec source = Inr PNone)
   \<and> (dict_get source (ds_key (ds_num spec)) = Inr d \<and> extraction_map spec = pre @ i # rest \<and>
        walk d pre = Some v \<and> \<not> truthy v \<and> (post_processor spec = None \<or> v = PNone) \<longrightarrow>
        extract_content spec source = Inr v)
   \<and> (dict_get source (ds_key (ds_num spec)) = Inr d \<and> extraction_map spec = pre @ i # rest \<and>
        walk d pre = Some v \<and> \<not> truthy v \<and> v \<noteq> PNone \<and>
        post_processor spec = Some f \<and> f v = Inr w \<longrightarrow>
        extract_content spec source = Inr w)
   \<and> (dict_get source (ds_key (ds_num spec)) = Inr d \<and> extraction_map spec = pre @ i # rest \<and>
        walk d pre = Some v \<and> \<not> truthy v \<and> v \<noteq> PNone \<and>
        post_processor spec = Some f \<and> f v = Inl e' \<longrightarrow>
        extract_content spec source = Inr (post_processor_except_fallback spec))"
proof (intro conjI impI)
  show "\<exists>r. extract_content spec source = Inr r"
    by (rule extract_content_total)
next
  assume "dict_get source (ds_key (ds_num spec)) = Inl KeyError"
  then show "extract_content spec source = Inr PNone"
    by (simp add: extract_content_def split: option.splits)
next
  assume a: "dict_get source (ds_key (ds_num spec)) = Inr d \<and> extraction_map spec = pre @ i # rest \<and>
        walk d pre = Some v \<and> truthy v \<and> py_getitem v i = Inl e"
  then have "nested_lookup d (extraction_map spec) = nested_lookup v (i # rest)"
    using walk_nested_lookup [of d pre v "i # rest"] by simp
  moreover have "nested_lookup v (i # rest) = Inr PNone \<or> (\<exists>e'. nested_lookup v (i # rest) = Inl e')"
    using a nested_lookup_blocked by blast
  ultimately show "extract_content spec source = Inr PNone"
    using a nested_lookup_errors [of v "i # rest"]
    by (auto simp: extract_content_def split: option.splits)
next
  assume a: "dict_get source (ds_key (ds_num spec)) = Inr d \<and> extraction_map spec = pre @ i # rest \<and>
        walk d pre = Some v \<and> \<not> truthy v \<and> (post_processor spec = None \<or> v = PNone)"
  then have "nested_lookup d (extraction_map spec) = Inr v"
    using walk_nested_lookup [of d pre v "i # rest"] nested_lookup_falsy [of v "i # rest"] by simp
  then show "extract_content spec source = Inr v"
    using a by (auto simp: extract_content_def split: option.splits)
next
  assume a: "dict_get source (ds_key (ds_num spec)) = Inr d \<and> extraction_map spec = pre @ i # rest \<and>
        walk d pre = Some v \<and> \<not> truthy v \<and> v \<noteq> PNone \<and>
        post_processor spec = Some f \<and> f v = Inr w"
  then have "nested_lookup d (extraction_map spec) = Inr v"
    using walk_nested_lookup [of d pre v "i # rest"] nested_lookup_falsy [of v "i # rest"] by simp
  then show "extract_content spec source = Inr w"
    using a by (simp add: extract_content_def)
next
  assume a: "dict_get source (ds_key (ds_num spec)) = Inr d \<and> extraction_map spec = pre @ i # rest \<and>
        walk d pre = Some v \<and> \<not> truthy v \<and> v \<noteq> PNone \<and>
        post_processor spec = Some f \<and> f v = Inl e'"
  then have "nested_lookup d (extraction_map spec) = Inr v"
    using walk_nested_lookup [of d pre v "i # rest"] nested_lookup_falsy [of v "i # rest"] by simp
  then show "extract_content spec source = Inr (post_processor_except_fallback spec)"
    using a by (simp add: extract_content_def)
qed

lemma extract_fields_other_key:
  "key \<notin> fst ` set specs \<Longrightarrow> extract_fields specs res result = Inr r \<Longrightarrow>
   map_of r key = map_of result key"
proof (induction specs arbitrary: result)
  case Nil
  then show ?case by simp
next
  case (Cons a specs)
  then show ?case
    by (cases a) (auto simp: update_conv' split: sum.splits)
qed

lemma extract_fields_total: "\<exists>r. extract_fields specs res result = Inr r"
proof (induction specs arbitrary: result)
  case Nil
  then show ?case by simp
next
  case (Cons a specs)
  obtain key spec where a: "a = (key, spec)" by (cases a)
  obtain v where "extract_content spec res = Inr v"
    using extract_content_total by blast
  then show ?case
    using Cons.IH a by simp
qed

lemma extract_fields_key:
  "distinct (map fst specs) \<Longrightarrow> (key, spec) \<in> set specs \<Longrightarrow>
   extract_fields specs res result = Inr r \<Longrightarrow>
   extract_content spec res = Inr v \<Longrightarrow> map_of r key = Some v"
proof (induction specs arbitrary: result)
  case Nil
  then show ?case by simp
next
  case (Cons a specs)
  obtain k sp where a: "a = (k, sp)" by (cases a)
  obtain c where c: "extract_content sp res = Inr c"
    using extract_content_total by blast
  have rest: "extract_fields specs res (AList.update k c result) = Inr r"
    using Cons.prems(3) a c by simp
  show ?case
  proof (cases "(key, spec) = a")
    case True
    then have "key \<notin> fst ` set specs" using Cons.prems(1) by force
    then have "map_of r key = map_of (AList.update k c result) key"
      using extract_fields_other_key rest by blast
    then show ?thesis using True a c Cons.prems(4) by (simp add: update_conv')
  next
    case False
    then have "(key, spec) \<in> set specs" using Cons.prems(2) by simp
    then show ?thesis using Cons.IH [OF _ _ rest Cons.prems(4)] Cons.prems(1) by simp
  qed
qed

text \<open>
  C7. When the raw value of a field is found (it is not \<open>None\<close>) and the declared
  post-processor raises on it, \<open>extract_content\<close> returns the declared fallback and does
  not raise. In a record built over any registry with distinct names that holds the
  field, the loop over the fields ends without an exception, the field holds the
  fallback, and every field holds what \<open>extract_content\<close> returns for its own
  specification.
\<close>

theorem post_processor_failure_contained:
  assumes "dict_get source (ds_key (ds_num spec)) = Inr d"
    and "nested_lookup d (extraction_map spec) = Inr raw" and "raw \<noteq> PNone"
    and "post_processor spec = Some f" and "f raw = Inl e"
  shows "extract_content spec source = Inr (post_processor_except_fallback spec) \<and>
    (\<forall>specs key result. distinct (map fst specs) \<and> (key, spec) \<in> set specs \<longrightarrow>
       (\<exists>r. extract_fields specs source result = Inr r \<and>
            map_of r key = Some (post_processor_except_fallback spec) \<and>
            (\<forall>(key', spec') \<in> set specs.
               \<exists>v. extract_content spec' source = Inr v \<and> map_of r key' = Some v)))"
proof -
  have fb: "extract_content spec source = Inr (post_processor_except_fallback spec)"
    using assms by (simp add: extract_content_def)
  have "\<exists>r. extract_fields specs source result = Inr r \<and>
            map_of r key = Some (post_processor_except_fallback spec) \<and>
            (\<forall>(key', spec') \<in> set specs.
               \<exists>v. extract_content spec' source = Inr v \<and> map_of r key' = Some v)"
    if d: "distinct (map fst specs)" and m: "(key, spec) \<in> set specs" for specs key result
  proof -
    obtain r where r: "extract_fields specs source result = Inr r"
      using extract_fields_total by blast
    have "\<exists>v. extract_content spec' source = Inr v \<and> map_of r key' = Some v"
      if "(key', spec') \<in> set specs" for key' spec'
    proof -
      obtain v where v: "extract_content spec' source = Inr v"
        using extract_content_total by blast
      then show ?thesis using extract_fields_key [OF d that r v] by simp
    qed
    moreover have "map_of r key = Some (post_processor_except_fallback spec)"
      using extract_fields_key [OF d m r fb] .
    ultimately show ?thesis using r by auto
  qed
  then show ?thesis using fb by blast
qed

lemma ds_key_examples:
  "ds_key 3 = ''ds:3''" "ds_key 5 = ''ds:5''" "ds_key 6 = ''ds:6''" "ds_key 8 = ''ds:8''"
  by (simp_all add: ds_key_def str_of_int_def)

theorem post_processor_failure_contained_witness:
  "extract_content DETAIL_histogram histogram_source
     = Inr (PList [PInt 0, PInt 0, PInt 0, PInt 0, PInt 0]) \<and>
   (\<exists>r. extract_fields [(''histogram'', DETAIL_histogram), (''version'', DETAIL_version)]
            histogram_source [(''appId'', PStr ''app'')] = Inr r \<and>
        map_of r ''histogram'' = Some (PList [PInt 0, PInt 0, PInt 0, PInt 0, PInt 0]) \<and>
        map_of r ''version'' = Some (PStr ''1.0''))"
proof -
  have d: "dict_get histogram_source (ds_key (ds_num DETAIL_histogram))
             = Inr (PList [PList [PInt 0, PInt 0, PInt 0, PInt 0, PInt 0, PInt 0,
                               PList [PInt 0, PStr ''x'']]])"
    by (simp add: dict_get_def histogram_source_def DETAIL_histogram_def ds_key_examples)
  have n: "nested_lookup (PList [PList [PInt 0, PInt 0, PInt 0, PInt 0, PInt 0, PInt 0,
                               PList [PInt 0, PStr ''x'']]]) (extraction_map DETAIL_histogram)
             = Inr (PStr ''x'')"
    by (simp add: DETAIL_histogram_def list_get_def)
  have p: "post_processor DETAIL_histogram = Some histogram_post"
    by (simp add: DETAIL_histogram_def)
  have f: "histogram_post (PStr ''x'') = Inl IndexError"
    by (simp add: histogram_post_def item_1_of_def list_get_def)
  have v: "extract_content DETAIL_version histogram_source = Inr (PStr ''1.0'')"
    by (simp add: extract_content_def DETAIL_version_def dict_get_def histogram_source_def
        ds_key_examples list_get_def)
  have fb: "post_processor_except_fallback DETAIL_histogram
              = PList [PInt 0, PInt 0, PInt 0, PInt 0, PInt 0]"
    by (simp add: DETAIL_histogram_def)
  have r: "PStr ''x'' \<noteq> PNone"
    by simp
  have q: "distinct (map fst [(''histogram'', DETAIL_histogram), (''version'', DETAIL_version)]) \<and>
           (''histogram'', DETAIL_histogram)
             \<in> set [(''histogram'', DETAIL_histogram), (''version'', DETAIL_version)]"
    by simp
  note t = post_processor_failure_contained [OF d n r p f]
  have t1: "extract_content DETAIL_histogram histogram_source
              = Inr (post_processor_except_fallback DETAIL_histogram)"
    using t by simp
  have "\<exists>r. extract_fields [(''histogram'', DETAIL_histogram), (''version'', DETAIL_version)]
            histogram_source [(''appId'', PStr ''app'')] = Inr r \<and>
        map_of r ''histogram'' = Some (post_processor_except_fallback DETAIL_histogram) \<and>
        (\<forall>(key', spec') \<in> set [(''histogram'', DETAIL_histogram), (''version'', DETAIL_version)].
               \<exists>v. extract_content spec' histogram_source = Inr v \<and> map_of r key' = Some v)"
    using t [THEN conjunct2, rule_format, OF q] .
  then show ?thesis using t1 v fb by auto
qed

theorem extract_content_absent_witness:
  "extract_content DETAIL_version [] = Inr PNone \<and>
   extract_content DETAIL_updated [(''ds:5'', PList [PList [PInt 1]])] = Inr PNone \<and>
   extract_content DETAIL_version [(''ds:8'', PInt 7)] = Inr PNone \<and>
   extract_content DETAIL_size [(''ds:8'', PStr '''')] = Inr (PStr '''') \<and>
   extract_content DETAIL_free [(''ds:3'', PList [PInt 0])] = Inr (PBool True) \<and>
   extract_content DETAIL_histogram [(''ds:6'', PList [PList []])]
     = Inr (PList [PInt 0, PInt 0, PInt 0, PInt 0, PInt 0])"
proof -
  have a: "dict_get [] (ds_key (ds_num DETAIL_version)) = Inl KeyError"
    by (simp add: dict_get_def)
  have b: "dict_get [(''ds:5'', PList [PList [PInt 1]])] (ds_key (ds_num DETAIL_updated))
             = Inr (PList [PList [PInt 1]]) \<and>
           extraction_map DETAIL_updated = [0] @ 12 # [8, 0] \<and>
           walk (PList [PList [PInt 1]]) [0] = Some (PList [PInt 1]) \<and>
           truthy (PList [PInt 1]) \<and> py_getitem (PList [PInt 1]) 12 = Inl IndexError"
    by (simp add: dict_get_def DETAIL_updated_def ds_key_examples list_get_def)
  have c: "dict_get [(''ds:8'', PInt 7)] (ds_key (ds_num DETAIL_version)) = Inr (PInt 7) \<and>
           extraction_map DETAIL_version = [] @ 1 # [] \<and>
           walk (PInt 7) [] = Some (PInt 7) \<and>
           truthy (PInt 7) \<and> py_getitem (PInt 7) 1 = Inl TypeError"
    by (simp add: dict_get_def DETAIL_version_def ds_key_examples)
  have d: "dict_get [(''ds:8'', PStr '''')] (ds_key (ds_num DETAIL_size)) = Inr (PStr '''') \<and>
           extraction_map DETAIL_size = [] @ 0 # [] \<and>
           walk (PStr '''') [] = Some (PStr '''') \<and>
           \<not> truthy (PStr '''') \<and> (post_processor DETAIL_size = None \<or> PStr '''' = PNone)"
    by (simp add: dict_get_def DETAIL_size_def ds_key_examples)
  have f: "dict_get [(''ds:3'', PList [PInt 0])] (ds_key (ds_num DETAIL_free))
             = Inr (PList [PInt 0]) \<and>
           extraction_map DETAIL_free = [0] @ 2 # [0, 0, 0, 1, 0, 0] \<and>
           walk (PList [PInt 0]) [0] = Some (PInt 0) \<and>
           \<not> truthy (PInt 0) \<and> PInt 0 \<noteq> PNone \<and>
           post_processor DETAIL_free = Some free_post \<and> free_post (PInt 0) = Inr (PBool True)"
    by (simp add: dict_get_def DETAIL_free_def ds_key_examples list_get_def free_post_def)
  have h: "dict_get [(''ds:6'', PList [PList []])] (ds_key (ds_num DETAIL_histogram))
             = Inr (PList [PList []]) \<and>
           extraction_map DETAIL_histogram = [0] @ 6 # [1] \<and>
           walk (PList [PList []]) [0] = Some (PList []) \<and>
           \<not> truthy (PList []) \<and> PList [] \<noteq> PNone \<and>
           post_processor DETAIL_histogram = Some histogram_post \<and>
           histogram_post (PList []) = Inl IndexError"
    by (simp add: dict_get_def DETAIL_histogram_def ds_key_examples list_get_def
        histogram_post_def item_1_of_def)
  have fb: "post_processor_except_fallback DETAIL_histogram
              = PList [PInt 0, PInt 0, PInt 0, PInt 0, PInt 0]"
    by (simp add: DETAIL_histogram_def)
  have w1: "extract_content DETAIL_version [] = Inr PNone"
    using extract_content_absent [of DETAIL_version "[]"] a by blast
  have w2: "extract_content DETAIL_updated [(''ds:5'', PList [PList [PInt 1]])] = Inr PNone"
    using extract_content_absent [of DETAIL_updated "[(''ds:5'', PList [PList [PInt 1]])]"
        "PList [PList [PInt 1]]" "[0]" 12 "[8, 0]" "PList [PInt 1]" IndexError] b by blast
  have w3: "extract_content DETAIL_version [(''ds:8'', PInt 7)] = Inr PNone"
    using extract_content_absent [of DETAIL_version "[(''ds:8'', PInt 7)]"
        "PInt 7" "[]" 1 "[]" "PInt 7" TypeError] c by blast
  have w4: "extract_content DETAIL_size [(''ds:8'', PStr '''')] = Inr (PStr '''')"
    using extract_content_absent [of DETAIL_size "[(''ds:8'', PStr '''')]"
        "PStr ''''" "[]" 0 "[]" "PStr ''''"] d by blast
  have w5: "extract_content DETAIL_free [(''ds:3'', PList [PInt 0])] = Inr (PBool True)"
    using extract_content_absent [where spec = DETAIL_free
        and source = "[(''ds:3'', PList [PInt 0])]" and d = "PList [PInt 0]" and pre = "[0]"
        and i = 2 and rest = "[0, 0, 0, 1, 0, 0]" and v = "PInt 0" and f = free_post
        and w = "PBool True"] f by blast
  have w6: "extract_content DETAIL_histogram [(''ds:6'', PList [PList []])]
              = Inr (post_processor_except_fallback DETAIL_histogram)"
    using extract_content_absent [where spec = DETAIL_histogram
        and source = "[(''ds:6'', PList [PList []])]" and d = "PList [PList []]" and pre = "[0]"
        and i = 6 and rest = "[1]" and v = "PList []" and f = histogram_post
        and e' = IndexError] h by blast
  show ?thesis
    using w1 w2 w3 w4 w5 w6 fb by simp
qed

section \<open>Properties of the response parser\<close>

lemma parse_response_loop_decoded:
  "list_all2 (\<lambda>b kv. fst kv = fst b \<and> loads (snd b) = Inr (snd kv)) (List.map_filter block_of ms) entries
   \<Longrightarrow> parse_response_loop loads res ms = Inr (dict_of_pairs res entries)"
proof (induction ms arbitrary: res entries)
  case Nil
  then show ?case by (simp add: dict_of_pairs_def List.map_filter_simps)
next
  case (Cons m ms)
  show ?case
  proof (cases "block_of m")
    case None
    then have "\<not> (KEY_findall m \<noteq> [] \<and> VALUE_findall m \<noteq> [])"
      by (auto simp: block_of_def split: if_splits)
    then show ?thesis
      using Cons None by (auto simp: List.map_filter_simps Let_def)
  next
    case (Some b)
    then have b: "KEY_findall m \<noteq> [] \<and> VALUE_findall m \<noteq> []"
      "b = (hd (KEY_findall m), hd (VALUE_findall m))"
      by (auto simp: block_of_def split: if_splits)
    from Cons.prems Some obtain kv rest where e: "entries = kv # rest"
      "fst kv = fst b" "loads (snd b) = Inr (snd kv)"
      "list_all2 (\<lambda>b kv. fst kv = fst b \<and> loads (snd b) = Inr (snd kv)) (List.map_filter block_of ms) rest"
      by (auto simp: List.map_filter_simps list_all2_Cons1)
    show ?thesis
      using Cons.IH [OF e(4)] b e(1,2,3) by (simp add: Let_def dict_of_pairs_def)
  qed
qed

lemma parse_response_loop_raises:
  "b \<in> set (List.map_filter block_of ms) \<Longrightarrow> loads (snd b) = Inl e
   \<Longrightarrow> \<exists>e'. parse_response_loop loads res ms = Inl e'"
proof (induction ms arbitrary: res)
  case Nil
  then show ?case by (simp add: List.map_filter_simps)
next
  case (Cons m ms)
  show ?case
  proof (cases "block_of m")
    case None
    then have "\<not> (KEY_findall m \<noteq> [] \<and> VALUE_findall m \<noteq> [])"
      by (auto simp: block_of_def split: if_splits)
    then show ?thesis
      using Cons None by (auto simp: List.map_filter_simps Let_def)
  next
    case (Some b')
    then have b: "KEY_findall m \<noteq> [] \<and> VALUE_findall m \<noteq> []"
      "b' = (hd (KEY_findall m), hd (VALUE_findall m))"
      by (auto simp: block_of_def split: if_splits)
    show ?thesis
    proof (cases "loads (snd b')")
      case (Inl e')
      then show ?thesis using b by (simp add: Let_def)
    next
      case (Inr v)
      then have "b \<noteq> b'" using Cons.prems(2) by auto
      then have "b \<in> set (List.map_filter block_of ms)"
        using Cons.prems(1) Some by (simp add: List.map_filter_simps)
      then show ?thesis
        using Cons.IH Cons.prems(2) b Inr by (simp add: Let_def)
    qed
  qed
qed

lemma page_two_blocks_blocks:
  "script_blocks page_two_blocks = [(''ds:5'', ''[1,2]''), (''ds:8'', ''[\"1M\"]'')]"
  by (simp add: script_blocks_def page_two_blocks_def SCRIPT_findall_def block_of_def
      KEY_findall_def VALUE_findall_def List.map_filter_simps)

lemma page_bad_payload_blocks:
  "script_blocks page_bad_payload = [(''ds:5'', ''[1,''), (''ds:8'', ''[\"1M\"]'')]"
  by (simp add: script_blocks_def page_bad_payload_def SCRIPT_findall_def block_of_def
      KEY_findall_def VALUE_findall_def List.map_filter_simps)

lemma json_loads_examples:
  "json_loads ''[1,2]'' = Inr (PList [PInt 1, PInt 2])"
  "json_loads ''[\"1M\"]'' = Inr (PList [PStr ''1M''])"
  "json_loads ''[1,'' = Inl JSONDecodeError"
  by (simp_all add: json_loads_def json_number_def json_escape_def json_ws_def is_digit_def
      nat_of_digits_def digit_val_def Let_def)

text \<open>
  C3, as stated, fails: the payload of the first block of the page is not JSON, and
  \<open>parse_response\<close> raises the decoding error instead of returning the map with the
  dataset of the second block.
\<close>

theorem parse_response_counterexample:
  "script_blocks page_bad_payload = [(''ds:5'', ''[1,''), (''ds:8'', ''[\"1M\"]'')] \<and>
   json_loads ''[\"1M\"]'' = Inr (PList [PStr ''1M'']) \<and>
   parse_response json_loads page_bad_payload = Inl JSONDecodeError"
  using page_bad_payload_blocks json_loads_examples
  by (simp add: parse_response_def page_bad_payload_def SCRIPT_findall_def
      KEY_findall_def VALUE_findall_def Let_def)

text \<open>
  C3, amended. For every response body and every JSON decoder: when the payload of
  every script block whose key and payload patterns both match decodes, \<open>parse_response\<close>
  returns the dataset map with an entry for each such block (a later block replaces
  an earlier one with the same key); when the payload of some such block does not
  decode, \<open>parse_response\<close> raises and returns no map.
\<close>

theorem parse_response_all_or_nothing:
  "(list_all2 (\<lambda>b kv. fst kv = fst b \<and> loads (snd b) = Inr (snd kv)) (script_blocks html) entries
      \<longrightarrow> parse_response loads html = Inr (dict_of_pairs [] entries))
   \<and> (b \<in> set (script_blocks html) \<and> loads (snd b) = Inl e
      \<longrightarrow> (\<exists>e'. parse_response loads html = Inl e'))"
  using parse_response_loop_decoded [of loads "SCRIPT_findall html" entries "[]"]
    parse_response_loop_raises [of b "SCRIPT_findall html" loads e "[]"]
  by (simp add: parse_response_def script_blocks_def)

theorem parse_response_all_or_nothing_witness:
  "parse_response json_loads page_two_blocks
     = Inr [(''ds:5'', PList [PInt 1, PInt 2]), (''ds:8'', PList [PStr ''1M''])]
   \<and> (\<exists>e'. parse_response json_loads page_bad_payload = Inl e')"
proof -
  have a: "list_all2 (\<lambda>b kv. fst kv = fst b \<and> json_loads (snd b) = Inr (snd kv))
             (script_blocks page_two_blocks)
             [(''ds:5'', PList [PInt 1, PInt 2]), (''ds:8'', PList [PStr ''1M''])]"
    using json_loads_examples by (simp add: page_two_blocks_blocks)
  have b: "(''ds:5'', ''[1,'') \<in> set (script_blocks page_bad_payload) \<and>
           json_loads (snd (''ds:5'', ''[1,'')) = Inl JSONDecodeError"
    using json_loads_examples by (simp add: page_bad_payload_blocks)
  show ?thesis
    using parse_response_all_or_nothing [of json_loads page_two_blocks
        "[(''ds:5'', PList [PInt 1, PInt 2]), (''ds:8'', PList [PStr ''1M''])]"] a
      parse_response_all_or_nothing [of json_loads page_bad_payload _ "(''ds:5'', ''[1,'')"
        JSONDecodeError] b
    by (simp add: dict_of_pairs_def)
qed

section \<open>Properties of the details operation\<close>

lemma py_int_examples:
  "py_int '' 10 '' = Inr 10"
  "py_int ''-1_0'' = Inr (- 10)"
  "py_int (CHR 0x1C # ''5'') = Inl ValueError"
  "py_int ''5x'' = Inl ValueError"
  by (simp_all add: py_int_def int_space_def is_digit_def nat_of_digits_def digit_val_def Let_def)

lemma build_url_details:
  "build_url ''details''
     [(''func'', f), (''id'', a), (''hl'', h), (''gl'', g)]
   = Inr (''https://play.google.com/store/apps/'' @ f @ ''?id='' @ a @ h @ g)"
  by (simp add: build_url_def url_template_def)

text \<open>
  C10. When the parser yields the empty dataset map for the body of the response,
  \<open>details\<close> raises \<open>ValueError\<close> (from \<open>max\<close> over no keys) and returns no record, and
  \<open>ValueError\<close> is none of the scraper's exception classes.
\<close>

theorem details_empty_map_raises:
  assumes "responses n = Inr html" and "parse_response loads html = Inr []"
  shows "details loads responses n DETAIL app_id lang country = Inl ValueError \<and>
         \<not> is_GooglePlayScraperException ValueError"
  using assms
  by (simp add: details_def build_url_details py_max_def is_GooglePlayScraperException_def)

theorem details_empty_map_raises_witness:
  "details json_loads responses_no_blocks 0 [(''version'', DETAIL_version)] ''com.example'' None None
     = Inl ValueError"
proof -
  have r: "responses_no_blocks 0 = Inr page_no_blocks"
    by (simp add: responses_no_blocks_def)
  have p: "parse_response json_loads page_no_blocks = Inr []"
    by (simp add: parse_response_def page_no_blocks_def SCRIPT_findall_def)
  show ?thesis
    using details_empty_map_raises [where responses = responses_no_blocks and n = 0
        and html = page_no_blocks and loads = json_loads, OF r p]
    by simp
qed

section \<open>Properties of the pagination engine\<close>

lemma cluster_body_extends:
  "cluster_body loads responses lang country n results = Inr (results', token', n')
     \<Longrightarrow> \<exists>ys. results' = results @ ys"
  "cluster_body loads responses lang country n results = Inl (e, results', n')
     \<Longrightarrow> \<exists>ys. results' = results @ ys"
  by (auto simp: cluster_body_def split: sum.splits prod.splits)

lemma cluster_loop_more_fuel:
  "cluster_loop loads responses lang country fuel n results token = Some x \<Longrightarrow>
   cluster_loop loads responses lang country (fuel + k) n results token = Some x"
proof (induction fuel arbitrary: n results token)
  case 0
  then show ?case by simp
next
  case (Suc fuel)
  then show ?case
    by (auto split: sum.splits prod.splits if_splits)
qed

lemma cluster_reaches_extends:
  assumes "cluster_reaches loads responses lang country s t"
  shows "\<exists>ys. fst (snd t) = fst (snd s) @ ys"
  using assms
proof (induction rule: cluster_reaches.induct)
  case (here s)
  then show ?case by simp
next
  case (round token n results results' token' n' s)
  then show ?case
    using cluster_body_extends(1) [OF round.hyps(2)] by auto
qed

lemma build_url_ui:
  "build_url ''ui'' [(''hl'', h), (''gl'', g)]
     = Inr (''https://play.google.com/_/PlayStoreUi/data/batchexecute?'' @ h @ g)"
  by (simp add: build_url_def url_template_def)

lemma cluster_body_raises:
  "get_ui_request loads responses n = (Inl e, n') \<Longrightarrow>
   cluster_body loads responses lang country n results = Inl (e, results, n')"
  "get_ui_request loads responses n = (Inr resp, n') \<Longrightarrow> nested_lookup resp [0, 0, 0] = Inl e \<Longrightarrow>
   cluster_body loads responses lang country n results = Inl (e, results, n')"
  "get_ui_request loads responses n = (Inr resp, n') \<Longrightarrow> nested_lookup resp [0, 0, 0] = Inr apps \<Longrightarrow>
   parse_app_list apps None = Inl e \<Longrightarrow>
   cluster_body loads responses lang country n results = Inl (e, results, n')"
  "get_ui_request loads responses n = (Inr resp, n') \<Longrightarrow> nested_lookup resp [0, 0, 0] = Inr apps \<Longrightarrow>
   parse_app_list apps None = Inr ids \<Longrightarrow> nested_lookup resp [0, 0, 7, 1] = Inl e \<Longrightarrow>
   cluster_body loads responses lang country n results = Inl (e, results @ ids, n')"
  by (simp_all add: cluster_body_def build_url_ui)

lemma cluster_reaches_fuel:
  assumes "cluster_reaches loads responses lang country s t"
  shows "\<exists>k. \<forall>fuel x.
           cluster_loop loads responses lang country fuel (fst t) (fst (snd t)) (snd (snd t)) = Some x
           \<longrightarrow> cluster_loop loads responses lang country (fuel + k) (fst s) (fst (snd s)) (snd (snd s))
                 = Some x"
  using assms
proof (induction rule: cluster_reaches.induct)
  case (here s)
  have "\<forall>fuel x.
           cluster_loop loads responses lang country fuel (fst s) (fst (snd s)) (snd (snd s)) = Some x
           \<longrightarrow> cluster_loop loads responses lang country (fuel + 0) (fst s) (fst (snd s)) (snd (snd s))
                 = Some x"
    by simp
  then show ?case by blast
next
  case (round token n results results' token' n' s)
  then obtain k where k: "\<And>fuel x.
      cluster_loop loads responses lang country fuel (fst s) (fst (snd s)) (snd (snd s)) = Some x
      \<Longrightarrow> cluster_loop loads responses lang country (fuel + k) n' results' token' = Some x"
    by auto
  have "cluster_loop loads responses lang country (fuel + Suc k) n results token = Some x"
    if "cluster_loop loads responses lang country fuel (fst s) (fst (snd s)) (snd (snd s)) = Some x"
    for fuel x
    using k [OF that] round.hyps(1,2) by simp
  then have "\<forall>fuel x.
      cluster_loop loads responses lang country fuel (fst s) (fst (snd s)) (snd (snd s)) = Some x
      \<longrightarrow> cluster_loop loads responses lang country (fuel + Suc k)
            (fst (n, results, token)) (fst (snd (n, results, token))) (snd (snd (n, results, token)))
          = Some x"
    by simp
  then show ?case by blast
qed

lemma cluster_request_of_raise:
  assumes "responses 0 = Inr html"
    and "parse_response loads html = Inr res"
    and "extract_content CLUSTER_apps res = Inr apps0"
    and "extract_content CLUSTER_token res = Inr token0"
    and "parse_app_list apps0 None = Inr results0"
    and "cluster_reaches loads responses lang country (1, results0, token0) (n, results, token)"
    and "truthy token"
  shows "\<exists>fuel0. \<forall>fuel \<ge> fuel0. \<forall>e r n'.
           cluster_body loads responses lang country n results = Inl (e, r, n')
           \<longrightarrow> cluster_request loads responses lang country fuel = Some (Inr r, n')"
proof -
  obtain k where k: "\<And>fuel x.
      cluster_loop loads responses lang country fuel n results token = Some x
      \<Longrightarrow> cluster_loop loads responses lang country (fuel + k) 1 results0 token0 = Some x"
    using cluster_reaches_fuel [OF assms(6)] by auto
  have "cluster_request loads responses lang country fuel = Some (Inr r, n')"
    if f: "fuel \<ge> Suc k"
      and b: "cluster_body loads responses lang country n results = Inl (e, r, n')"
    for fuel e r n'
  proof -
    from f obtain j where j: "fuel = Suc j + k"
      by (metis add.commute add_Suc_right le_iff_add)
    have l: "cluster_loop loads responses lang country (Suc j) n results token = Some (r, n')"
      using assms(7) b by simp
    have "cluster_loop loads responses lang country (Suc j + k) 1 results0 token0 = Some (r, n')"
      by (rule k [OF l])
    then have "cluster_loop loads responses lang country fuel 1 results0 token0 = Some (r, n')"
      by (simp only: j)
    then show ?thesis
      unfolding cluster_request_def using assms(1-5) by simp
  qed
  then show ?thesis by blast
qed

text \<open>
  C5. Let the seed page be fetched, parsed and read without an exception, and let
  the loop reach, through rounds without an exception, a state with a true token and
  the list \<open>results\<close>, which extends the results of the seed page. Then, with enough
  fuel for the rounds made, \<open>_cluster_request\<close> returns a list, and never an
  exception, whichever step of the next round raises: when the request raises
  (the fetch, or the decoding of the response), when the lookup of the app list in the
  response raises, and when the identifiers cannot be read from the app list, it
  returns \<open>results\<close>; when the lookup of the token raises, it returns \<open>results\<close> with
  the identifiers of the page just read, which had been added before.
\<close>

theorem cluster_request_returns_partial:
  assumes "responses 0 = Inr html"
    and "parse_response loads html = Inr res"
    and "extract_content CLUSTER_apps res = Inr apps0"
    and "extract_content CLUSTER_token res = Inr token0"
    and "parse_app_list apps0 None = Inr results0"
    and "cluster_reaches loads responses lang country (1, results0, token0) (n, results, token)"
    and "truthy token"
  shows "(\<exists>ys. results = results0 @ ys) \<and>
    (\<exists>fuel0. \<forall>fuel \<ge> fuel0.
       (\<forall>e n'. get_ui_request loads responses n = (Inl e, n') \<longrightarrow>
          cluster_request loads responses lang country fuel = Some (Inr results, n'))
     \<and> (\<forall>resp n' e. get_ui_request loads responses n = (Inr resp, n') \<and>
          nested_lookup resp [0, 0, 0] = Inl e \<longrightarrow>
          cluster_request loads responses lang country fuel = Some (Inr results, n'))
     \<and> (\<forall>resp n' apps e. get_ui_request loads responses n = (Inr resp, n') \<and>
          nested_lookup resp [0, 0, 0] = Inr apps \<and> parse_app_list apps None = Inl e \<longrightarrow>
          cluster_request loads responses lang country fuel = Some (Inr results, n'))
     \<and> (\<forall>resp n' apps ids e. get_ui_request loads responses n = (Inr resp, n') \<and>
          nested_lookup resp [0, 0, 0] = Inr apps \<and> parse_app_list apps None = Inr ids \<and>
          nested_lookup resp [0, 0, 7, 1] = Inl e \<longrightarrow>
          cluster_request loads responses lang country fuel = Some (Inr (results @ ids), n')))"
proof -
  obtain fuel0 where r: "\<And>fuel e r n'. fuel \<ge> fuel0 \<Longrightarrow>
      cluster_body loads responses lang country n results = Inl (e, r, n') \<Longrightarrow>
      cluster_request loads responses lang country fuel = Some (Inr r, n')"
    using cluster_request_of_raise [OF assms] by blast
  have ys: "\<exists>ys. results = results0 @ ys"
    using cluster_reaches_extends [OF assms(6)] by simp
  have "(\<forall>e n'. get_ui_request loads responses n = (Inl e, n') \<longrightarrow>
          cluster_request loads responses lang country fuel = Some (Inr results, n'))
     \<and> (\<forall>resp n' e. get_ui_request loads responses n = (Inr resp, n') \<and>
          nested_lookup resp [0, 0, 0] = Inl e \<longrightarrow>
          cluster_request loads responses lang country fuel = Some (Inr results, n'))
     \<and> (\<forall>resp n' apps e. get_ui_request loads responses n = (Inr resp, n') \<and>
          nested_lookup resp [0, 0, 0] = Inr apps \<and> parse_app_list apps None = Inl e \<longrightarrow>
          cluster_request loads responses lang country fuel = Some (Inr results, n'))
     \<and> (\<forall>resp n' apps ids e. get_ui_request loads responses n = (Inr resp, n') \<and>
          nested_lookup resp [0, 0, 0] = Inr apps \<and> parse_app_list apps None = Inr ids \<and>
          nested_lookup resp [0, 0, 7, 1] = Inl e \<longrightarrow>
          cluster_request loads responses lang country fuel = Some (Inr (results @ ids), n'))"
    if f: "fuel \<ge> fuel0" for fuel
  proof (intro conjI allI impI)
    fix e n'
    assume "get_ui_request loads responses n = (Inl e, n')"
    then show "cluster_request loads responses lang country fuel = Some (Inr results, n')"
      using r [OF f cluster_body_raises(1)] by simp
  next
    fix resp n' e
    assume "get_ui_request loads responses n = (Inr resp, n') \<and> nested_lookup resp [0, 0, 0] = Inl e"
    then show "cluster_request loads responses lang country fuel = Some (Inr results, n')"
      using r [OF f cluster_body_raises(2)] by simp
  next
    fix resp n' apps e
    assume "get_ui_request loads responses n = (Inr resp, n') \<and>
          nested_lookup resp [0, 0, 0] = Inr apps \<and> parse_app_list apps None = Inl e"
    then show "cluster_request loads responses lang country fuel = Some (Inr results, n')"
      using r [OF f cluster_body_raises(3)] by simp
  next
    fix resp n' apps ids e
    assume "get_ui_request loads responses n = (Inr resp, n') \<and>
          nested_lookup resp [0, 0, 0] = Inr apps \<and> parse_app_list apps None = Inr ids \<and>
          nested_lookup resp [0, 0, 7, 1] = Inl e"
    then show "cluster_request loads responses lang country fuel = Some (Inr (results @ ids), n')"
      using r [OF f cluster_body_raises(4)] by simp
  qed
  then show ?thesis using ys by blast
qed

lemma seed_page_parsed: "parse_response json_loads seed_page = Inr seed_dataset"
  by code_simp

lemma seed_dataset_extract:
  "extract_content CLUSTER_apps seed_dataset = Inr (PList [app_entry ''com.a''])"
  "extract_content CLUSTER_token seed_dataset = Inr (PStr ''tok'')"
  by code_simp+

lemma seed_app_list: "parse_app_list (PList [app_entry ''com.a'']) None = Inr [PStr ''com.a'']"
  by code_simp

lemma bad_token_page_read:
  "get_ui_request json_loads responses_bad_token 2 = (Inr bad_token_decoded, 3)"
  "nested_lookup bad_token_decoded [0, 0, 0] = Inr (PList [app_entry ''com.c''])"
  "parse_app_list (PList [app_entry ''com.c'']) None = Inr [PStr ''com.c'']"
  "nested_lookup bad_token_decoded [0, 0, 7, 1] = Inl TypeError"
  by code_simp+

text \<open>
  Two runs: the request of the third call raises after one continuation page, and
  the token of the second continuation page cannot be read; in the second run the
  app of that page, \<open>com.c\<close>, is kept.
\<close>

theorem cluster_request_returns_partial_witness:
  "(\<exists>fuel0. \<forall>fuel \<ge> fuel0.
     cluster_request json_loads responses_page_then_not_found None None fuel
       = Some (Inr [PStr ''com.a'', PStr ''com.b''], 3))
   \<and> (\<exists>fuel0. \<forall>fuel \<ge> fuel0.
     cluster_request json_loads responses_bad_token None None fuel
       = Some (Inr [PStr ''com.a'', PStr ''com.b'', PStr ''com.c''], 3))"
proof -
  have r0: "responses_page_then_not_found 0 = Inr seed_page"
           "responses_bad_token 0 = Inr seed_page"
    by (simp_all add: responses_page_then_not_found_def responses_bad_token_def)
  have b1: "cluster_body json_loads responses_page_then_not_found None None 1 [PStr ''com.a'']
              = Inr ([PStr ''com.a'', PStr ''com.b''], PStr ''t2'', 2)"
    by code_simp
  have c1: "cluster_body json_loads responses_bad_token None None 1 [PStr ''com.a'']
              = Inr ([PStr ''com.a'', PStr ''com.b''], PStr ''t2'', 2)"
    by code_simp
  have g: "get_ui_request json_loads responses_page_then_not_found 2 = (Inl NotFoundError, 3)"
    by (simp add: get_ui_request_def responses_page_then_not_found_def)
  have reach1: "cluster_reaches json_loads responses_page_then_not_found None None
                 (1, [PStr ''com.a''], PStr ''tok'')
                 (2, [PStr ''com.a'', PStr ''com.b''], PStr ''t2'')"
    by (rule cluster_reaches.round [OF _ b1 cluster_reaches.here]) simp
  have reach2: "cluster_reaches json_loads responses_bad_token None None
                 (1, [PStr ''com.a''], PStr ''tok'')
                 (2, [PStr ''com.a'', PStr ''com.b''], PStr ''t2'')"
    by (rule cluster_reaches.round [OF _ c1 cluster_reaches.here]) simp
  have t: "truthy (PStr ''t2'')"
    by simp
  note p1 = cluster_request_returns_partial [where responses = responses_page_then_not_found
      and loads = json_loads, OF r0(1) seed_page_parsed seed_dataset_extract(1)
      seed_dataset_extract(2) seed_app_list reach1 t, THEN conjunct2]
  note p2 = cluster_request_returns_partial [where responses = responses_bad_token
      and loads = json_loads, OF r0(2) seed_page_parsed seed_dataset_extract(1)
      seed_dataset_extract(2) seed_app_list reach2 t, THEN conjunct2]
  from p1 obtain f1 where q1: "\<forall>fuel \<ge> f1.
       (\<forall>e n'. get_ui_request json_loads responses_page_then_not_found 2 = (Inl e, n') \<longrightarrow>
          cluster_request json_loads responses_page_then_not_found None None fuel
            = Some (Inr [PStr ''com.a'', PStr ''com.b''], n'))
     \<and> (\<forall>resp n' e. get_ui_request json_loads responses_page_then_not_found 2 = (Inr resp, n') \<and>
          nested_lookup resp [0, 0, 0] = Inl e \<longrightarrow>
          cluster_request json_loads responses_page_then_not_found None None fuel
            = Some (Inr [PStr ''com.a'', PStr ''com.b''], n'))
     \<and> (\<forall>resp n' apps e. get_ui_request json_loads responses_page_then_not_found 2 = (Inr resp, n') \<and>
          nested_lookup resp [0, 0, 0] = Inr apps \<and> parse_app_list apps None = Inl e \<longrightarrow>
          cluster_request json_loads responses_page_then_not_found None None fuel
            = Some (Inr [PStr ''com.a'', PStr ''com.b''], n'))
     \<and> (\<forall>resp n' apps ids e. get_ui_request json_loads responses_page_then_not_found 2 = (Inr resp, n') \<and>
          nested_lookup resp [0, 0, 0] = Inr apps \<and> parse_app_list apps None = Inr ids \<and>
          nested_lookup resp [0, 0, 7, 1] = Inl e \<longrightarrow>
          cluster_request json_loads responses_page_then_not_found None None fuel
            = Some (Inr ([PStr ''com.a'', PStr ''com.b''] @ ids), n'))" ..
  from p2 obtain f2 where q2: "\<forall>fuel \<ge> f2.
       (\<forall>e n'. get_ui_request json_loads responses_bad_token 2 = (Inl e, n') \<longrightarrow>
          cluster_request json_loads responses_bad_token None None fuel
            = Some (Inr [PStr ''com.a'', PStr ''com.b''], n'))
     \<and> (\<forall>resp n' e. get_ui_request json_loads responses_bad_token 2 = (Inr resp, n') \<and>
          nested_lookup resp [0, 0, 0] = Inl e \<longrightarrow>
          cluster_request json_loads responses_bad_token None None fuel
            = Some (Inr [PStr ''com.a'', PStr ''com.b''], n'))
     \<and> (\<forall>resp n' apps e. get_ui_request json_loads responses_bad_token 2 = (Inr resp, n') \<and>
          nested_lookup resp [0, 0, 0] = Inr apps \<and> parse_app_list apps None = Inl e \<longrightarrow>
          cluster_request json_loads responses_bad_token None None fuel
            = Some (Inr [PStr ''com.a'', PStr ''com.b''], n'))
     \<and> (\<forall>resp n' apps ids e. get_ui_request json_loads responses_bad_token 2 = (Inr resp, n') \<and>
          nested_lookup resp [0, 0, 0] = Inr apps \<and> parse_app_list apps None = Inr ids \<and>
          nested_lookup resp [0, 0, 7, 1] = Inl e \<longrightarrow>
          cluster_request json_loads responses_bad_token None None fuel
            = Some (Inr ([PStr ''com.a'', PStr ''com.b''] @ ids), n'))" ..
  have "cluster_request json_loads responses_page_then_not_found None None fuel
          = Some (Inr [PStr ''com.a'', PStr ''com.b''], 3)" if "fuel \<ge> f1" for fuel
    using q1 [rule_format, OF that, THEN conjunct1, rule_format, OF g] .
  moreover have "cluster_request json_loads responses_bad_token None None fuel
          = Some (Inr [PStr ''com.a'', PStr ''com.b'', PStr ''com.c''], 3)" if "fuel \<ge> f2" for fuel
  proof -
    have h: "get_ui_request json_loads responses_bad_token 2 = (Inr bad_token_decoded, 3) \<and>
          nested_lookup bad_token_decoded [0, 0, 0] = Inr (PList [app_entry ''com.c'']) \<and>
          parse_app_list (PList [app_entry ''com.c'']) None = Inr [PStr ''com.c''] \<and>
          nested_lookup bad_token_decoded [0, 0, 7, 1] = Inl TypeError"
      using bad_token_page_read by simp
    show ?thesis
      using q2 [rule_format, OF that, THEN conjunct2, THEN conjunct2, THEN conjunct2,
          rule_format, OF h]
      by simp
  qed
  ultimately show ?thesis by blast
qed

lemma pagination_example:
  "cluster_request json_loads responses_then_not_found None None 2
     = Some (Inr [PStr ''com.a'', PStr ''com.b''], 2)"
  by code_simp

text \<open>
  C6 on the code. The seed page holds the app \<open>com.a\<close> and a token, and every
  continuation response holds the marker. \<open>_get_ui_request\<close> makes the request six
  times (once, and five repetitions), then returns the last response as a string;
  \<open>_cluster_request\<close> reads that string as a page: its first character is taken for a
  list of apps, whose one item has no identifier, so \<open>None\<close> is appended to the
  results of the seed page. Seven calls are made in all.
\<close>

theorem cluster_request_always_marker:
  "cluster_request json_loads responses_always_marker None None 2
     = Some (Inr [PStr ''com.a'', PNone], 7)"
  by code_simp

section \<open>Properties of the reduced metadata row\<close>

text \<open>
  C8, as stated, fails on the booleans: \<open>format\<close> writes them as \<open>True\<close> and \<open>False\<close>.
  For a record with a release date and an enabled download link the row ends in
  \<open>True,True\<close>, and for a record without a link it ends in \<open>False,False\<close>; neither row
  holds \<open>true\<close> or \<open>false\<close>.
\<close>

theorem reduced_row_counterexample:
  "reduced_row no_other ''com.a'' metadata_released
     = Inr ''com.a,1.0,1349740800,\"Oct 9, 2012\",True,True\<newline>'' \<and>
   reduced_row no_other ''com.a'' metadata_unreleased
     = Inr ''com.a,1.0,1349740800,None,False,False\<newline>''"
  by (simp add: reduced_row_def dict_get_def metadata_released_def metadata_unreleased_def
      py_str_def str_of_int_def row_quoted_def row_plain_def)

text \<open>
  C8, amended. For every record that holds the five fields, the row is
  \<open>appId,version,updated,released,downloadLink,downloadLinkEnabled\<close> and a newline; the
  released field is wrapped in double quotes when it is true (present and not empty),
  and written as it is otherwise (\<open>None\<close> when absent); the two download-link fields
  are the truth values of the link and of its enabled flag, written \<open>True\<close> and \<open>False\<close>.
\<close>

theorem reduced_row_shape:
  assumes "dict_get metadata ''version'' = Inr version"
    and "dict_get metadata ''updated'' = Inr updated"
    and "dict_get metadata ''released'' = Inr released"
    and "dict_get metadata ''downloadLink'' = Inr link"
    and "dict_get metadata ''downloadLinkEnabled'' = Inr enabled"
  shows "reduced_row other app metadata =
     Inr (app @ '','' @ py_str other version @ '','' @ py_str other updated @ '','' @
          (if truthy released then [CHR 0x22] @ py_str other released @ [CHR 0x22]
           else py_str other released) @ '','' @
          (if truthy link then ''True'' else ''False'') @ '','' @
          (if truthy enabled then ''True'' else ''False'') @ [CHR 0x0A])"
  using assms by (simp add: reduced_row_def row_quoted_def row_plain_def py_str_def)

theorem reduced_row_shape_witness:
  "reduced_row no_other ''com.b'' metadata_released
     = Inr ''com.b,1.0,1349740800,\"Oct 9, 2012\",True,True\<newline>''"
proof -
  have f: "dict_get metadata_released ''version'' = Inr (PStr ''1.0'')"
    "dict_get metadata_released ''updated'' = Inr (PInt 1349740800)"
    "dict_get metadata_released ''released'' = Inr (PStr ''Oct 9, 2012'')"
    "dict_get metadata_released ''downloadLink''
       = Inr (PStr ''https://play.google.com/store/apps/details?id=com.a'')"
    "dict_get metadata_released ''downloadLinkEnabled'' = Inr (PBool True)"
    by (simp_all add: dict_get_def metadata_released_def)
  have s: "py_str no_other (PInt 1349740800) = ''1349740800''"
    by (simp add: py_str_def str_of_int_def)
  have t: "truthy (PStr ''Oct 9, 2012'')" "truthy (PBool True)"
    "truthy (PStr ''https://play.google.com/store/apps/details?id=com.a'')"
    "py_str no_other (PStr ''1.0'') = ''1.0''"
    "py_str no_other (PStr ''Oct 9, 2012'') = ''Oct 9, 2012''"
    by (simp_all add: py_str_def)
  show ?thesis
    unfolding reduced_row_shape [OF f, of no_other "''com.b''"] s t
    by simp
qed

end
